theory Spec2Isabelle
  imports Main
begin

section \<open>Strings of the host language\<close>

text \<open>
  A TypeScript string is modelled as a \<^typ>\<open>string\<close>, one \<^typ>\<open>char\<close> per code unit
  (code units above 255 are outside the range of \<^typ>\<open>char\<close>).
  \<open>startsWith\<close>, \<open>slice\<close> with one argument, \<open>split\<close> with a one-character
  separator and \<open>trim\<close> are the methods of \<open>String.prototype\<close> that the sources call.
\<close>

fun startsWith :: "string \<Rightarrow> string \<Rightarrow> bool" where
  "startsWith s [] = True"
| "startsWith [] (p # ps) = False"
| "startsWith (c # cs) (p # ps) = (c = p \<and> startsWith cs ps)"

definition slice :: "string \<Rightarrow> nat \<Rightarrow> string" where
  "slice s n = drop n s"

text \<open>
  \<open>s.split(sep)\<close> for a separator of one character: \<open>split_go\<close> carries the segment
  read so far; the result always has at least one segment (\<open>"".split("/")\<close> is \<open>[""]\<close>).
\<close>

fun split_go :: "char \<Rightarrow> string \<Rightarrow> string \<Rightarrow> string list" where
  "split_go sep cur [] = [cur]"
| "split_go sep cur (c # cs) =
     (if c = sep then cur # split_go sep [] cs else split_go sep (cur @ [c]) cs)"

definition split :: "string \<Rightarrow> char \<Rightarrow> string list" where
  "split s sep = split_go sep [] s"

text \<open>
  White space and line terminators of ECMAScript that fit a \<^typ>\<open>char\<close>: TAB, LF, VT, FF,
  CR, SP and NBSP.
\<close>

definition js_white :: "char \<Rightarrow> bool" where
  "js_white c \<longleftrightarrow> (of_char c :: nat) \<in> {9, 10, 11, 12, 13, 32, 160}"

definition trim :: "string \<Rightarrow> string" where
  "trim s = rev (dropWhile js_white (rev (dropWhile js_white s)))"

section \<open>Model identifiers and model descriptors (adapter.ts)\<close>

text \<open>
  \<open>MODEL_ID_PREFIX\<close> is imported from \<open>./const\<close>, which is not among the sources; the
  functions below take it as the parameter \<open>pfx\<close>. The earlier provider
  (\<open>unnamed/part_000\<close>, line 5) declares it as the literal recorded here.
\<close>

definition MODEL_ID_PREFIX :: string where
  "MODEL_ID_PREFIX = ''vscode-openrouter/''"

text \<open>
  \<open>getOpenRouterModelId\<close> (adapter.ts 133-137):
  \<^verbatim>\<open>vscodeModelId.startsWith(P) ? vscodeModelId.slice(P.length) : vscodeModelId\<close>.
\<close>

definition getOpenRouterModelId :: "string \<Rightarrow> string \<Rightarrow> string" where
  "getOpenRouterModelId pfx vscodeModelId =
     (if startsWith vscodeModelId pfx then slice vscodeModelId (length pfx) else vscodeModelId)"

text \<open>
  The provider's model record (\<open>Model\<close> of the SDK), with the fields that
  \<open>convertModelInformation\<close> reads. Optional fields are options; \<open>topProvider\<close> and
  \<open>architecture\<close> are optional objects with optional members.
\<close>

record TopProvider =
  maxCompletionTokens :: "int option"

record Architecture =
  inputModalities :: "string list option"

record Model =
  model_id :: string
  model_name :: string
  contextLength :: "int option"
  topProvider :: "TopProvider option"
  architecture :: "Architecture option"
  supportedParameters :: "string list option"

record Capabilities =
  imageInput :: bool
  toolCalling :: bool

text \<open>
  \<open>LanguageModelChatInformation\<close> as built by \<open>convertModelInformation\<close>. The
  \<open>tooltip\<close> (a rendering of the pricing table with \<open>Number.prototype.toFixed\<close>) is
  floating-point formatting and is left out of the record.
\<close>

record LanguageModelChatInformation =
  info_id :: string
  info_name :: string
  family :: string
  version :: string
  maxInputTokens :: int
  maxOutputTokens :: int
  capabilities :: Capabilities

text \<open>
  \<open>a ?? b\<close> on an optional value, \<open>a || b\<close> on a string (the empty string is falsy),
  the truth value of an optional string in a condition, and \<open>xs?.includes(x) ?? false\<close>.
\<close>

definition nullish :: "'a option \<Rightarrow> 'a \<Rightarrow> 'a" where
  "nullish a b = (case a of None \<Rightarrow> b | Some v \<Rightarrow> v)"

definition or_else :: "string \<Rightarrow> string \<Rightarrow> string" where
  "or_else a b = (if a = [] then b else a)"

definition truthy :: "string option \<Rightarrow> bool" where
  "truthy a = (case a of None \<Rightarrow> False | Some v \<Rightarrow> v \<noteq> [])"

definition includes_opt :: "string list option \<Rightarrow> string \<Rightarrow> bool" where
  "includes_opt xs x = (case xs of None \<Rightarrow> False | Some l \<Rightarrow> x \<in> set l)"

text \<open>
  \<open>model.id.split("/")[0] ?? "unknown"\<close> (adapter.ts 19; the same expression stands at
  provider.ts 114 and part_000 42). Indexing an array out of range gives \<open>undefined\<close>,
  which is the only case in which \<open>??\<close> takes its right operand.
\<close>

definition family_of :: "string \<Rightarrow> string" where
  "family_of ident =
     (case split ident (CHR ''/'') of [] \<Rightarrow> ''unknown'' | seg # _ \<Rightarrow> seg)"

definition convertModelInformation :: "string \<Rightarrow> Model \<Rightarrow> LanguageModelChatInformation" where
  "convertModelInformation pfx model =
     \<lparr> info_id = pfx @ model_id model,
       info_name = or_else (model_name model) (model_id model),
       family = family_of (model_id model),
       version = ''latest'',
       maxInputTokens = nullish (contextLength model) 4096,
       maxOutputTokens =
         nullish (case topProvider model of None \<Rightarrow> None | Some tp \<Rightarrow> maxCompletionTokens tp) 4096,
       capabilities =
         \<lparr> imageInput =
             includes_opt (case architecture model of None \<Rightarrow> None | Some a \<Rightarrow> inputModalities a)
               ''image'',
           toolCalling = includes_opt (supportedParameters model) ''tools'' \<rparr> \<rparr>"

text \<open>
  The OpenAI-compatible provider builds its descriptors itself (provider.ts 34-46 and
  107-123) from the records of the \<open>/models\<close> response: a record without an id is
  skipped, the bounds come from \<open>resolveModelCapabilities\<close>, the family from the same
  expression.
\<close>

record TopProviderData =
  tp_context_length :: "int option"
  tp_max_completion_tokens :: "int option"

record OpenRouterModelData =
  data_id :: string
  data_name :: "string option"
  context_length :: "int option"
  supported_parameters :: "string list option"
  data_architecture :: "Architecture option"
  top_provider :: "TopProviderData option"

record ModelCapabilities =
  cap_name :: string
  cap_toolCalling :: bool
  vision :: bool
  cap_maxInputTokens :: int
  cap_maxOutputTokens :: int

definition resolveModelCapabilities :: "OpenRouterModelData \<Rightarrow> ModelCapabilities option" where
  "resolveModelCapabilities m =
     (if data_id m = [] then None
      else
        let contextLength =
              nullish (case top_provider m of None \<Rightarrow> None | Some tp \<Rightarrow> tp_context_length tp)
                (nullish (context_length m) 0);
            maxOut =
              nullish (case top_provider m of None \<Rightarrow> None | Some tp \<Rightarrow> tp_max_completion_tokens tp)
                16000
        in Some \<lparr> cap_name = nullish (data_name m) (data_id m),
                  cap_toolCalling = includes_opt (supported_parameters m) ''tools'',
                  vision =
                    includes_opt
                      (case data_architecture m of None \<Rightarrow> None | Some a \<Rightarrow> inputModalities a)
                      ''image'',
                  cap_maxInputTokens = max 0 (contextLength - 16000),
                  cap_maxOutputTokens = maxOut \<rparr>)"

definition modelInformation :: "string \<Rightarrow> OpenRouterModelData \<Rightarrow>
    LanguageModelChatInformation option" where
  "modelInformation pfx model =
     (case resolveModelCapabilities model of
        None \<Rightarrow> None
      | Some cap \<Rightarrow>
          Some \<lparr> info_id = pfx @ data_id model,
                 info_name = cap_name cap,
                 family = family_of (data_id model),
                 version = ''latest'',
                 maxInputTokens = cap_maxInputTokens cap,
                 maxOutputTokens = cap_maxOutputTokens cap,
                 capabilities =
                   \<lparr> imageInput = vision cap, toolCalling = cap_toolCalling cap \<rparr> \<rparr>)"

definition provideLanguageModelChatInformation :: "string \<Rightarrow> OpenRouterModelData list \<Rightarrow>
    LanguageModelChatInformation list" where
  "provideLanguageModelChatInformation pfx models =
     foldl (\<lambda>list model.
              case modelInformation pfx model of None \<Rightarrow> list | Some info \<Rightarrow> list @ [info])
       [] models"

section \<open>JSON values and the built-ins of the runtime\<close>

text \<open>
  A JSON value as a syntax tree. A number is kept as its decimal literal (rounding to a
  double and the canonical rendering of numbers are not modelled); an object is the list
  of its members in the order written, a repeated key included. The object \<open>{x: 1}\<close> is
  \<open>JObject [(''x'', JNumber ''1'')]\<close> and the empty object \<open>{}\<close> is \<open>JObject []\<close>.
\<close>

datatype json =
    JNull
  | JBool bool
  | JNumber string
  | JString string
  | JArray "json list"
  | JObject "(string \<times> json) list"

text \<open>
  \<open>JSON.parse\<close>, \<open>JSON.stringify\<close> and \<open>btoa\<close> belong to the runtime, not to the
  repository. The functions of the repository take them as parameters (\<open>parse\<close>,
  \<open>stringify\<close>, \<open>btoa\<close>), where \<open>parse s = None\<close> stands for the \<open>SyntaxError\<close>
  that \<open>JSON.parse\<close> throws. \<open>JSON_parse\<close>, \<open>JSON_stringify\<close> and \<open>base64\<close> below are
  executable models of the three, used to run the repository's functions on concrete
  inputs. \<open>JSON_parse\<close> follows the grammar of ECMA-404: a scanner that reads one
  character at a time, then a push-down recogniser over the tokens.
\<close>

datatype token = TLBrace | TRBrace | TLBracket | TRBracket | TColon | TComma | TValue json

definition is_digit :: "char \<Rightarrow> bool" where
  "is_digit c \<longleftrightarrow> 48 \<le> (of_char c :: nat) \<and> (of_char c :: nat) \<le> 57"

definition is_letter :: "char \<Rightarrow> bool" where
  "is_letter c \<longleftrightarrow>
     (65 \<le> (of_char c :: nat) \<and> (of_char c :: nat) \<le> 90) \<or>
     (97 \<le> (of_char c :: nat) \<and> (of_char c :: nat) \<le> 122)"

definition word_char :: "char \<Rightarrow> bool" where
  "word_char c \<longleftrightarrow>
     is_digit c \<or> is_letter c \<or> c = CHR ''+'' \<or> c = CHR ''-'' \<or> c = CHR ''.''"

definition json_white :: "char \<Rightarrow> bool" where
  "json_white c \<longleftrightarrow> (of_char c :: nat) \<in> {9, 10, 13, 32}"

definition strip_minus :: "string \<Rightarrow> string" where
  "strip_minus s = (case s of [] \<Rightarrow> [] | c # r \<Rightarrow> if c = CHR ''-'' then r else s)"

definition strip_sign :: "string \<Rightarrow> string" where
  "strip_sign s =
     (case s of [] \<Rightarrow> [] | c # r \<Rightarrow> if c = CHR ''+'' \<or> c = CHR ''-'' then r else s)"

definition int_part_ok :: "string \<Rightarrow> bool" where
  "int_part_ok ds = (case ds of [] \<Rightarrow> False | d # r \<Rightarrow> d \<noteq> CHR ''0'' \<or> r = [])"

definition exponent_ok :: "string \<Rightarrow> bool" where
  "exponent_ok s =
     (case s of
        [] \<Rightarrow> True
      | c # r \<Rightarrow>
          (c = CHR ''e'' \<or> c = CHR ''E'') \<and> strip_sign r \<noteq> [] \<and>
          list_all is_digit (strip_sign r))"

definition fraction_ok :: "string \<Rightarrow> bool" where
  "fraction_ok s =
     (case s of
        [] \<Rightarrow> True
      | c # r \<Rightarrow>
          if c = CHR ''.''
          then takeWhile is_digit r \<noteq> [] \<and> exponent_ok (dropWhile is_digit r)
          else exponent_ok s)"

definition is_json_number :: "string \<Rightarrow> bool" where
  "is_json_number s =
     (int_part_ok (takeWhile is_digit (strip_minus s)) \<and>
      fraction_ok (dropWhile is_digit (strip_minus s)))"

text \<open>
  A maximal run of letters, digits, signs and dots is one token: a literal name or a
  number. (In a JSON text such a run is always followed by white space, a structural
  character or the end of the input.)
\<close>

definition finish_word :: "string \<Rightarrow> json option" where
  "finish_word w =
     (if w = ''null'' then Some JNull
      else if w = ''true'' then Some (JBool True)
      else if w = ''false'' then Some (JBool False)
      else if is_json_number w then Some (JNumber w)
      else None)"

definition hex_digit :: "char \<Rightarrow> nat option" where
  "hex_digit c =
     (let n = (of_char c :: nat) in
      if 48 \<le> n \<and> n \<le> 57 then Some (n - 48)
      else if 65 \<le> n \<and> n \<le> 70 then Some (n - 55)
      else if 97 \<le> n \<and> n \<le> 102 then Some (n - 87)
      else None)"

definition escape_char :: "char \<Rightarrow> char option" where
  "escape_char c =
     (if c = CHR 0x22 \<or> c = CHR 0x5C \<or> c = CHR ''/'' then Some c
      else if c = CHR ''b'' then Some (CHR 0x08)
      else if c = CHR ''f'' then Some (CHR 0x0C)
      else if c = CHR ''n'' then Some (CHR 0x0A)
      else if c = CHR ''r'' then Some (CHR 0x0D)
      else if c = CHR ''t'' then Some (CHR 0x09)
      else None)"

datatype lexmode =
    Idle
  | InWord string
  | InString string
  | InEscape string
  | InUnicode string nat nat

definition idle_step :: "token list \<Rightarrow> char \<Rightarrow> (lexmode \<times> token list) option" where
  "idle_step toks c =
     (if json_white c then Some (Idle, toks)
      else if c = CHR ''{'' then Some (Idle, toks @ [TLBrace])
      else if c = CHR ''}'' then Some (Idle, toks @ [TRBrace])
      else if c = CHR ''['' then Some (Idle, toks @ [TLBracket])
      else if c = CHR '']'' then Some (Idle, toks @ [TRBracket])
      else if c = CHR '':'' then Some (Idle, toks @ [TColon])
      else if c = CHR '','' then Some (Idle, toks @ [TComma])
      else if c = CHR 0x22 then Some (InString [], toks)
      else if word_char c then Some (InWord [c], toks)
      else None)"

text \<open>
  Inside a string, \<open>InUnicode s k v\<close> has read \<open>k\<close> hexadecimal digits of a \<open>\u\<close>
  escape, of value \<open>v\<close>; the code unit is cut to the range of \<^typ>\<open>char\<close>.
\<close>

fun lex_step :: "lexmode \<times> token list \<Rightarrow> char \<Rightarrow> (lexmode \<times> token list) option" where
  "lex_step (Idle, toks) c = idle_step toks c"
| "lex_step (InWord w, toks) c =
     (if word_char c then Some (InWord (w @ [c]), toks)
      else case finish_word w of
             None \<Rightarrow> None
           | Some v \<Rightarrow> idle_step (toks @ [TValue v]) c)"
| "lex_step (InString s, toks) c =
     (if c = CHR 0x22 then Some (Idle, toks @ [TValue (JString s)])
      else if c = CHR 0x5C then Some (InEscape s, toks)
      else if (of_char c :: nat) < 32 then None
      else Some (InString (s @ [c]), toks))"
| "lex_step (InEscape s, toks) c =
     (if c = CHR ''u'' then Some (InUnicode s 0 0, toks)
      else case escape_char c of
             None \<Rightarrow> None
           | Some e \<Rightarrow> Some (InString (s @ [e]), toks))"
| "lex_step (InUnicode s k v, toks) c =
     (case hex_digit c of
        None \<Rightarrow> None
      | Some h \<Rightarrow>
          if k = 3 then Some (InString (s @ [char_of (16 * v + h)]), toks)
          else Some (InUnicode s (Suc k) (16 * v + h), toks))"

fun run :: "('s \<Rightarrow> 'a \<Rightarrow> 's option) \<Rightarrow> 's \<Rightarrow> 'a list \<Rightarrow> 's option" where
  "run f s [] = Some s"
| "run f s (x # xs) = (case f s x of None \<Rightarrow> None | Some s' \<Rightarrow> run f s' xs)"

definition tokenize :: "string \<Rightarrow> token list option" where
  "tokenize s =
     (case run lex_step (Idle, []) s of
        None \<Rightarrow> None
      | Some (Idle, toks) \<Rightarrow> Some toks
      | Some (InWord w, toks) \<Rightarrow>
          (case finish_word w of None \<Rightarrow> None | Some v \<Rightarrow> Some (toks @ [TValue v]))
      | Some (_, toks) \<Rightarrow> None)"

text \<open>
  The recogniser keeps the enclosing arrays and objects on a stack: \<open>InArr xs\<close> is an
  array whose elements so far are \<open>xs\<close>, \<open>InObj kvs k\<close> an object whose members so far
  are \<open>kvs\<close> and whose next value belongs to the key \<open>k\<close>.
\<close>

datatype frame = InArr "json list" | InObj "(string \<times> json) list" string

datatype pstate =
    ExpValue "frame list"
  | ExpValueOrClose "frame list"
  | ExpKeyOrClose "frame list"
  | ExpKey "(string \<times> json) list" "frame list"
  | ExpColon "(string \<times> json) list" string "frame list"
  | AfterElem "json list" "frame list"
  | AfterMember "(string \<times> json) list" "frame list"
  | Done json

fun complete :: "json \<Rightarrow> frame list \<Rightarrow> pstate" where
  "complete v [] = Done v"
| "complete v (InArr xs # st) = AfterElem (xs @ [v]) st"
| "complete v (InObj kvs k # st) = AfterMember (kvs @ [(k, v)]) st"

fun start_value :: "frame list \<Rightarrow> token \<Rightarrow> pstate option" where
  "start_value st (TValue v) = Some (complete v st)"
| "start_value st TLBracket = Some (ExpValueOrClose st)"
| "start_value st TLBrace = Some (ExpKeyOrClose st)"
| "start_value st _ = None"

fun parse_step :: "pstate \<Rightarrow> token \<Rightarrow> pstate option" where
  "parse_step (ExpValue st) t = start_value st t"
| "parse_step (ExpValueOrClose st) t =
     (if t = TRBracket then Some (complete (JArray []) st) else start_value (InArr [] # st) t)"
| "parse_step (ExpKeyOrClose st) t =
     (case t of
        TRBrace \<Rightarrow> Some (complete (JObject []) st)
      | TValue (JString k) \<Rightarrow> Some (ExpColon [] k st)
      | _ \<Rightarrow> None)"
| "parse_step (ExpKey kvs st) t =
     (case t of TValue (JString k) \<Rightarrow> Some (ExpColon kvs k st) | _ \<Rightarrow> None)"
| "parse_step (ExpColon kvs k st) t =
     (if t = TColon then Some (ExpValue (InObj kvs k # st)) else None)"
| "parse_step (AfterElem xs st) t =
     (case t of
        TComma \<Rightarrow> Some (ExpValue (InArr xs # st))
      | TRBracket \<Rightarrow> Some (complete (JArray xs) st)
      | _ \<Rightarrow> None)"
| "parse_step (AfterMember kvs st) t =
     (case t of
        TComma \<Rightarrow> Some (ExpKey kvs st)
      | TRBrace \<Rightarrow> Some (complete (JObject kvs) st)
      | _ \<Rightarrow> None)"
| "parse_step (Done v) t = None"

definition JSON_parse :: "string \<Rightarrow> json option" where
  "JSON_parse s =
     (case tokenize s of
        None \<Rightarrow> None
      | Some toks \<Rightarrow>
          (case run parse_step (ExpValue []) toks of
             Some (Done v) \<Rightarrow> Some v
           | _ \<Rightarrow> None))"

text \<open>\<open>Array.prototype.join\<close> on strings.\<close>

fun join :: "string \<Rightarrow> string list \<Rightarrow> string" where
  "join sep [] = []"
| "join sep [x] = x"
| "join sep (x # y # ys) = x @ sep @ join sep (y # ys)"

definition hex_char :: "nat \<Rightarrow> char" where
  "hex_char n = ''0123456789abcdef'' ! (n mod 16)"

definition quote_char :: "char \<Rightarrow> string" where
  "quote_char c =
     (if c = CHR 0x22 then [CHR 0x5C, CHR 0x22]
      else if c = CHR 0x5C then [CHR 0x5C, CHR 0x5C]
      else if c = CHR 0x08 then [CHR 0x5C, CHR ''b'']
      else if c = CHR 0x0C then [CHR 0x5C, CHR ''f'']
      else if c = CHR 0x0A then [CHR 0x5C, CHR ''n'']
      else if c = CHR 0x0D then [CHR 0x5C, CHR ''r'']
      else if c = CHR 0x09 then [CHR 0x5C, CHR ''t'']
      else if (of_char c :: nat) < 32
      then [CHR 0x5C, CHR ''u'', CHR ''0'', CHR ''0'',
            hex_char ((of_char c :: nat) div 16), hex_char (of_char c :: nat)]
      else [c])"

definition quote :: "string \<Rightarrow> string" where
  "quote s = [CHR 0x22] @ concat (map quote_char s) @ [CHR 0x22]"

fun JSON_stringify :: "json \<Rightarrow> string" where
  "JSON_stringify JNull = ''null''"
| "JSON_stringify (JBool b) = (if b then ''true'' else ''false'')"
| "JSON_stringify (JNumber n) = n"
| "JSON_stringify (JString s) = quote s"
| "JSON_stringify (JArray xs) = ''['' @ join '','' (map JSON_stringify xs) @ '']''"
| "JSON_stringify (JObject kvs) =
     ''{'' @ join '','' (map (\<lambda>kv. quote (fst kv) @ '':'' @ JSON_stringify (snd kv)) kvs) @ ''}''"

text \<open>\<open>btoa\<close> on a binary string: base 64 with padding.\<close>

definition b64_char :: "nat \<Rightarrow> char" where
  "b64_char n =
     ''ABCDEFGHIJKLMNOPQRSTUVWXYZabcdefghijklmnopqrstuvwxyz0123456789+/'' ! (n mod 64)"

fun b64_bytes :: "nat list \<Rightarrow> string" where
  "b64_bytes [] = []"
| "b64_bytes [a] = [b64_char (a div 4), b64_char ((a mod 4) * 16), CHR ''='', CHR ''='']"
| "b64_bytes [a, b] =
     [b64_char (a div 4), b64_char ((a mod 4) * 16 + b div 16), b64_char ((b mod 16) * 4),
      CHR ''='']"
| "b64_bytes (a # b # c # rest) =
     [b64_char (a div 4), b64_char ((a mod 4) * 16 + b div 16),
      b64_char ((b mod 16) * 4 + c div 64), b64_char (c mod 64)] @ b64_bytes rest"

definition base64 :: "string \<Rightarrow> string" where
  "base64 s = b64_bytes (map of_char s)"

section \<open>Translation of the host's messages (adapter.ts)\<close>

text \<open>
  The host's side. \<open>LanguageModelChatMessageRole\<close> has the members \<open>User\<close> and
  \<open>Assistant\<close>; \<open>OtherRole\<close> is any other value, which \<open>convertRole\<close> sends to its
  \<open>default\<close> branch. A content part is an instance of one of the host's part classes;
  the same classes are what the provider reports to the progress sink. The bytes of a
  data part are numbers below 256. \<open>LanguageModelThinkingPart v i d\<close> has the value
  \<open>v\<close>, the id \<open>i\<close> and the metadata \<open>{vscode_reasoning_done: true}\<close> when \<open>d\<close> holds,
  \<open>{}\<close> otherwise.
\<close>

datatype LanguageModelChatMessageRole = User | Assistant | OtherRole

datatype part =
    LanguageModelTextPart string
  | LanguageModelToolResultPart string json
  | LanguageModelToolCallPart string string json
  | LanguageModelDataPart "nat list" string
  | LanguageModelThinkingPart string string bool
  | OtherPart

record LanguageModelChatRequestMessage =
  msg_role :: LanguageModelChatMessageRole
  msg_content :: "part list"

text \<open>The provider's side: the shapes of \<open>Message\<close> that the adapter pushes.\<close>

datatype Role = RoleSystem | RoleUser | RoleAssistant | RoleTool

datatype ContentItem = ImageUrl string string

datatype Content = ContentText string | ContentNull | ContentItems "ContentItem list"

record ToolCall =
  call_id :: string
  call_type :: string
  call_name :: string
  call_arguments :: string

record Message =
  role :: Role
  content :: Content
  toolCallId :: "string option"
  toolCalls :: "ToolCall list option"

fun convertRole :: "LanguageModelChatMessageRole \<Rightarrow> Role" where
  "convertRole User = RoleUser"
| "convertRole Assistant = RoleAssistant"
| "convertRole OtherRole = RoleSystem"

text \<open>
  The body of the inner loop of \<open>vscodeMessagesToOpenRouter\<close> (adapter.ts 60-113): the
  messages pushed to \<open>out\<close> for one element of \<open>msg.content\<close>, the \<open>instanceof\<close> tests
  in the order of the source. \<open>ImageUrl u d\<close> is the item
  \<open>{type: "image_url", imageUrl: {url: u, detail: d}}\<close>.
\<close>

fun pushed :: "(json \<Rightarrow> string) \<Rightarrow> (string \<Rightarrow> string) \<Rightarrow> LanguageModelChatMessageRole \<Rightarrow>
    part \<Rightarrow> Message list" where
  "pushed stringify btoa r (LanguageModelTextPart v) =
     (if convertRole r \<noteq> RoleTool
      then [\<lparr> role = convertRole r, content = ContentText v, toolCallId = None,
              toolCalls = None \<rparr>]
      else [])"
| "pushed stringify btoa r (LanguageModelToolResultPart callId c) =
     [\<lparr> role = RoleTool, content = ContentText (stringify c), toolCallId = Some callId,
        toolCalls = None \<rparr>]"
| "pushed stringify btoa r (LanguageModelToolCallPart callId name input) =
     [\<lparr> role = RoleAssistant, content = ContentNull, toolCallId = None,
        toolCalls =
          Some [\<lparr> call_id = callId, call_type = ''function'', call_name = name,
                   call_arguments = stringify input \<rparr>] \<rparr>]"
| "pushed stringify btoa r (LanguageModelDataPart bytes mimeType) =
     (let binaryString = foldl (\<lambda>acc byte. acc @ [char_of byte]) [] bytes in
      if startsWith mimeType ''image/''
      then [\<lparr> role = convertRole r,
              content =
                ContentItems
                  [ImageUrl (''data:'' @ mimeType @ '';base64,'' @ btoa binaryString) ''auto''],
              toolCallId = None, toolCalls = None \<rparr>]
      else [])"
| "pushed stringify btoa r (LanguageModelThinkingPart v i d) = []"
| "pushed stringify btoa r OtherPart = []"

definition vscodeMessagesToOpenRouter :: "(json \<Rightarrow> string) \<Rightarrow> (string \<Rightarrow> string) \<Rightarrow>
    LanguageModelChatRequestMessage list \<Rightarrow> Message list" where
  "vscodeMessagesToOpenRouter stringify btoa messages =
     foldl (\<lambda>out msg.
              foldl (\<lambda>out element. out @ pushed stringify btoa (msg_role msg) element) out
                (msg_content msg))
       [] messages"

section \<open>The request's messages (provider.ts and the unnamed provider)\<close>

text \<open>
  Both providers of provider.ts (lines 140-150 and 314-327) translate the messages,
  fail with \<open>No messages to send.\<close> when the translation is empty, read the setting
  \<open>openrouter.systemPrompt\<close> with \<open>?.trim()\<close> and, when the result is truthy, filter the
  system messages out and \<open>unshift\<close> one system message. \<open>setting\<close> is the value of the
  setting, \<open>None\<close> when it is not set.
\<close>

definition systemMessage :: "string \<Rightarrow> Message" where
  "systemMessage text =
     \<lparr> role = RoleSystem, content = ContentText text, toolCallId = None, toolCalls = None \<rparr>"

definition applySystemPrompt :: "string option \<Rightarrow> Message list \<Rightarrow> Message list" where
  "applySystemPrompt systemPromptOverride orMessages =
     (case systemPromptOverride of
        None \<Rightarrow> orMessages
      | Some ov \<Rightarrow>
          if ov \<noteq> []
          then systemMessage ov # filter (\<lambda>msg. role msg \<noteq> RoleSystem) orMessages
          else orMessages)"

definition requestMessages :: "(json \<Rightarrow> string) \<Rightarrow> (string \<Rightarrow> string) \<Rightarrow> string option \<Rightarrow>
    LanguageModelChatRequestMessage list \<Rightarrow> string + Message list" where
  "requestMessages stringify btoa setting messages =
     (let orMessages = vscodeMessagesToOpenRouter stringify btoa messages in
      if orMessages = [] then Inl ''No messages to send.''
      else Inr (applySystemPrompt (map_option trim setting) orMessages))"

text \<open>
  The provider of \<open>unnamed/part_000\<close> (lines 98-140) translates each message to one
  entry whose content joins the \<open>value\<close> of the parts that have one, drops the entries of
  empty content, then writes the override into the first system entry, or puts a system
  entry in front when there is none, and only then fails on an empty list.
\<close>

fun part_value :: "part \<Rightarrow> string" where
  "part_value (LanguageModelTextPart v) = v"
| "part_value (LanguageModelThinkingPart v i d) = v"
| "part_value _ = []"

definition translate_part000 :: "LanguageModelChatRequestMessage list \<Rightarrow> Message list" where
  "translate_part000 messages =
     filter (\<lambda>m. content m \<noteq> ContentText [])
       (map (\<lambda>m. \<lparr> role =
                     (if msg_role m = Assistant then RoleAssistant
                      else if msg_role m = User then RoleUser else RoleSystem),
                   content = ContentText (concat (map part_value (msg_content m))),
                   toolCallId = None, toolCalls = None \<rparr>)
          messages)"

fun findIndex :: "('a \<Rightarrow> bool) \<Rightarrow> 'a list \<Rightarrow> nat option" where
  "findIndex P [] = None"
| "findIndex P (x # xs) =
     (if P x then Some 0 else map_option Suc (findIndex P xs))"

definition applySystemPrompt_part000 :: "string option \<Rightarrow> Message list \<Rightarrow> Message list" where
  "applySystemPrompt_part000 systemPromptOverride orMessages =
     (case systemPromptOverride of
        None \<Rightarrow> orMessages
      | Some ov \<Rightarrow>
          if ov \<noteq> []
          then (case findIndex (\<lambda>m. role m = RoleSystem) orMessages of
                  Some firstSystemIdx \<Rightarrow>
                    map (\<lambda>(i, m). if i = firstSystemIdx then m\<lparr> content := ContentText ov \<rparr> else m)
                      (enumerate 0 orMessages)
                | None \<Rightarrow> systemMessage ov # orMessages)
          else orMessages)"

definition requestMessages_part000 :: "string option \<Rightarrow> LanguageModelChatRequestMessage list \<Rightarrow>
    string + Message list" where
  "requestMessages_part000 setting messages =
     (let orMessages = applySystemPrompt_part000 (map_option trim setting) (translate_part000 messages)
      in if orMessages = [] then Inl ''No messages to send.'' else Inr orMessages)"

section \<open>The response stream of the OpenAI-compatible provider (provider.ts 174-243)\<close>

text \<open>
  A chunk of the stream (\<open>ChatCompletionChunk\<close> with OpenRouter's \<open>reasoning\<close>): every
  member the loop guards with \<open>??\<close>, \<open>?.\<close> or a test against \<open>null\<close> is an option. The
  chunk type has no \<open>error\<close> member and the loop reads none.
\<close>

record FunctionDelta =
  fn_name :: "string option"
  fn_arguments :: "string option"

record ToolCallDelta =
  tc_index :: "nat option"
  tc_id :: "string option"
  tc_function :: "FunctionDelta option"

record Delta =
  reasoning :: "string option"
  delta_content :: "string option"
  tool_calls :: "ToolCallDelta list option"

record Choice =
  delta :: "Delta option"

record ChatCompletionChunk =
  choices :: "Choice list option"

text \<open>
  The state of one request: the three flags and \<open>toolCallAccum\<close> of the source, and the
  parts reported to \<open>progress\<close> so far, oldest first. A \<open>Map\<close> iterates in insertion
  order and an accumulator is mutated in place, so the table is an association list in
  which \<open>map_set\<close> overwrites an entry where it stands and puts a new key at the end.
\<close>

record Accumulator =
  acc_id :: string
  acc_name :: string
  argsStr :: string

record StreamState =
  thinkingActive :: bool
  reportedText :: bool
  reportedToolCall :: bool
  toolCallAccum :: "(nat \<times> Accumulator) list"
  progress :: "part list"

fun map_set :: "'k \<Rightarrow> 'v \<Rightarrow> ('k \<times> 'v) list \<Rightarrow> ('k \<times> 'v) list" where
  "map_set k v [] = [(k, v)]"
| "map_set k v (e # es) = (if fst e = k then (k, v) # es else e # map_set k v es)"

definition report :: "part \<Rightarrow> StreamState \<Rightarrow> StreamState" where
  "report p st = st\<lparr> progress := progress st @ [p] \<rparr>"

definition initialState :: StreamState where
  "initialState =
     \<lparr> thinkingActive = False, reportedText = False, reportedToolCall = False,
       toolCallAccum = [], progress = [] \<rparr>"

text \<open>Lines 208-211: what one fragment writes into its accumulator.\<close>

definition accumulate :: "ToolCallDelta \<Rightarrow> Accumulator \<Rightarrow> Accumulator" where
  "accumulate toolCall acc =
     (let acc1 = (case tc_id toolCall of
                    Some i \<Rightarrow> if i \<noteq> [] then acc\<lparr> acc_id := i \<rparr> else acc
                  | None \<Rightarrow> acc);
          acc2 = (case tc_function toolCall of
                    Some f \<Rightarrow>
                      (case fn_name f of
                         Some n \<Rightarrow> if n \<noteq> [] then acc1\<lparr> acc_name := n \<rparr> else acc1
                       | None \<Rightarrow> acc1)
                  | None \<Rightarrow> acc1)
      in case tc_function toolCall of
           Some f \<Rightarrow>
             (case fn_arguments f of
                Some argStr \<Rightarrow> acc2\<lparr> argsStr := argsStr acc2 @ argStr \<rparr>
              | None \<Rightarrow> acc2)
         | None \<Rightarrow> acc2)"

text \<open>
  Lines 201-221, the body of the loop over \<open>delta.tool_calls\<close>. The \<open>catch\<close> that
  \<open>continue\<close>s is the case \<open>None\<close>.
\<close>

definition onToolCall :: "(string \<Rightarrow> json option) \<Rightarrow> StreamState \<Rightarrow> ToolCallDelta \<Rightarrow>
    StreamState" where
  "onToolCall parse st toolCall =
     (let index = nullish (tc_index toolCall) 0;
          acc = accumulate toolCall
                  (case map_of (toolCallAccum st) index of
                     None \<Rightarrow> \<lparr> acc_id = [], acc_name = [], argsStr = [] \<rparr>
                   | Some a \<Rightarrow> a);
          st1 = st\<lparr> toolCallAccum := map_set index acc (toolCallAccum st) \<rparr>
      in case (if argsStr acc \<noteq> [] then parse (argsStr acc) else Some (JObject [])) of
           None \<Rightarrow> st1
         | Some args \<Rightarrow>
             (report (LanguageModelToolCallPart (acc_id acc) (acc_name acc) args) st1)
               \<lparr> reportedToolCall := True \<rparr>)"

text \<open>Lines 185-192, 194-197 and 199-222: one delta.\<close>

definition onReasoning :: "StreamState \<Rightarrow> Delta \<Rightarrow> StreamState" where
  "onReasoning st d =
     (if truthy (reasoning d)
      then (report (LanguageModelThinkingPart (nullish (reasoning d) []) [] False) st)
             \<lparr> thinkingActive := True \<rparr>
      else if thinkingActive st
      then (report (LanguageModelThinkingPart [] [] True) st)\<lparr> thinkingActive := False \<rparr>
      else st)"

definition onContent :: "StreamState \<Rightarrow> Delta \<Rightarrow> StreamState" where
  "onContent st d =
     (case delta_content d of
        None \<Rightarrow> st
      | Some c \<Rightarrow>
          if trim c \<noteq> [] then (report (LanguageModelTextPart c) st)\<lparr> reportedText := True \<rparr>
          else st)"

definition onToolCalls :: "(string \<Rightarrow> json option) \<Rightarrow> StreamState \<Rightarrow> Delta \<Rightarrow> StreamState" where
  "onToolCalls parse st d =
     (case tool_calls d of
        None \<Rightarrow> st
      | Some calls \<Rightarrow> foldl (onToolCall parse) st calls)"

definition onChoice :: "(string \<Rightarrow> json option) \<Rightarrow> StreamState \<Rightarrow> Choice \<Rightarrow> StreamState" where
  "onChoice parse st choice =
     (case delta choice of
        None \<Rightarrow> st
      | Some d \<Rightarrow> onToolCalls parse (onContent (onReasoning st d) d) d)"

definition onChunk :: "(string \<Rightarrow> json option) \<Rightarrow> StreamState \<Rightarrow> ChatCompletionChunk \<Rightarrow>
    StreamState" where
  "onChunk parse st chunk = foldl (onChoice parse) st (nullish (choices chunk) [])"

text \<open>Lines 226-234, 236-238 and 240-242: the three steps after the loop.\<close>

definition onDangling :: "(string \<Rightarrow> json option) \<Rightarrow> StreamState \<Rightarrow> Accumulator \<Rightarrow> StreamState" where
  "onDangling parse st acc =
     (if argsStr acc = [] then st
      else case parse (argsStr acc) of
             Some v \<Rightarrow> st
           | None \<Rightarrow>
               (report (LanguageModelToolCallPart (acc_id acc) (acc_name acc) (JObject [])) st)
                 \<lparr> reportedToolCall := True \<rparr>)"

definition danglingToolCalls :: "(string \<Rightarrow> json option) \<Rightarrow> StreamState \<Rightarrow> StreamState" where
  "danglingToolCalls parse st = foldl (onDangling parse) st (map snd (toolCallAccum st))"

definition closeThinking :: "StreamState \<Rightarrow> StreamState" where
  "closeThinking st =
     (if thinkingActive st then report (LanguageModelThinkingPart [] [] True) st else st)"

definition placeholder :: "StreamState \<Rightarrow> StreamState" where
  "placeholder st =
     (if \<not> reportedText st \<and> \<not> reportedToolCall st
      then report (LanguageModelTextPart '' '') st
      else st)"

text \<open>
  The stream is the list of the chunks the transport delivers until it is exhausted.
  \<open>streamLoop\<close> is the state after the \<open>for await\<close> loop, \<open>beforePlaceholder\<close> the state
  when line 240 is reached, and \<open>streamResponse\<close> everything reported to \<open>progress\<close> when
  the method returns.
\<close>

definition streamLoop :: "(string \<Rightarrow> json option) \<Rightarrow> ChatCompletionChunk list \<Rightarrow> StreamState" where
  "streamLoop parse chunks = foldl (onChunk parse) initialState chunks"

definition beforePlaceholder :: "(string \<Rightarrow> json option) \<Rightarrow> ChatCompletionChunk list \<Rightarrow>
    StreamState" where
  "beforePlaceholder parse chunks = closeThinking (danglingToolCalls parse (streamLoop parse chunks))"

definition streamResponse :: "(string \<Rightarrow> json option) \<Rightarrow> ChatCompletionChunk list \<Rightarrow> part list" where
  "streamResponse parse chunks = progress (placeholder (beforePlaceholder parse chunks))"

section \<open>The stream helpers of the adapter (adapter.ts 140-186)\<close>

text \<open>
  A chunk of the SDK (\<open>ChatStreamingResponseChunkData\<close>), as \<open>processStreamChunk\<close>
  reads it: an optional error with an optional message, and choices whose delta carries
  content, reasoning and tool-call fragments. The index of a fragment is read as it is.
\<close>

record ChunkError =
  message :: "string option"

record SdkToolCall =
  stc_index :: nat
  stc_id :: "string option"
  stc_function :: "FunctionDelta option"

record SdkDelta =
  sd_content :: "string option"
  sd_toolCalls :: "SdkToolCall list option"
  sd_reasoning :: "string option"

record SdkChoice =
  sdk_delta :: "SdkDelta option"

record ChatStreamingResponseChunkData =
  error :: "ChunkError option"
  sdk_choices :: "SdkChoice list option"

record ToolCallEntry =
  entry_id :: "string option"
  entry_name :: "string option"
  args :: string

text \<open>Lines 155-160: one fragment, written into the entry of its index.\<close>

definition mergeToolCall :: "(nat \<times> ToolCallEntry) list \<Rightarrow> SdkToolCall \<Rightarrow>
    (nat \<times> ToolCallEntry) list" where
  "mergeToolCall toolCallsByIndex tc =
     (let idx = stc_index tc;
          cur = (case map_of toolCallsByIndex idx of
                   None \<Rightarrow> \<lparr> entry_id = None, entry_name = None, args = [] \<rparr>
                 | Some e \<Rightarrow> e);
          cur1 = (case stc_id tc of Some i \<Rightarrow> cur\<lparr> entry_id := Some i \<rparr> | None \<Rightarrow> cur);
          cur2 = (case stc_function tc of
                    Some f \<Rightarrow>
                      (case fn_name f of Some n \<Rightarrow> cur1\<lparr> entry_name := Some n \<rparr> | None \<Rightarrow> cur1)
                  | None \<Rightarrow> cur1);
          cur3 = (case stc_function tc of
                    Some f \<Rightarrow>
                      (case fn_arguments f of
                         Some a \<Rightarrow> cur2\<lparr> args := args cur2 @ a \<rparr>
                       | None \<Rightarrow> cur2)
                  | None \<Rightarrow> cur2)
      in map_set idx cur3 toolCallsByIndex)"

text \<open>
  \<open>processStreamChunk\<close>: the result is the returned string (\<open>None\<close> for \<open>undefined\<close>),
  the parts reported to \<open>progress\<close> so far and the table \<open>toolCallsByIndex\<close>, both of
  which the source mutates in place.
\<close>

definition processStreamChunk :: "ChatStreamingResponseChunkData \<Rightarrow> part list \<Rightarrow>
    (nat \<times> ToolCallEntry) list \<Rightarrow> string option \<times> part list \<times> (nat \<times> ToolCallEntry) list" where
  "processStreamChunk chunk progress0 toolCallsByIndex =
     (case error chunk of
        Some err \<Rightarrow> (Some (nullish (message err) ''OpenRouter stream error''), progress0, toolCallsByIndex)
      | None \<Rightarrow>
          (case (case sdk_choices chunk of
                   None \<Rightarrow> None
                 | Some [] \<Rightarrow> None
                 | Some (c # _) \<Rightarrow> sdk_delta c) of
             None \<Rightarrow> (None, progress0, toolCallsByIndex)
           | Some d \<Rightarrow>
               (None,
                (if truthy (sd_content d)
                 then progress0 @ [LanguageModelTextPart (nullish (sd_content d) [])]
                 else progress0),
                (case sd_toolCalls d of
                   None \<Rightarrow> toolCallsByIndex
                 | Some streamToolCalls \<Rightarrow> foldl mergeToolCall toolCallsByIndex streamToolCalls))))"

text \<open>
  \<open>reportToolCalls\<close>: the entries in the order of their indices; one that has an id and
  a name is reported with the parsed arguments (\<open>"{}"\<close> for an empty string), or with
  \<open>{raw: args}\<close> when they do not parse.
\<close>

definition reportEntry :: "(string \<Rightarrow> json option) \<Rightarrow> (nat \<times> ToolCallEntry) list \<Rightarrow> part list \<Rightarrow>
    nat \<Rightarrow> part list" where
  "reportEntry parse toolCallsByIndex progress0 idx =
     (case map_of toolCallsByIndex idx of
        None \<Rightarrow> progress0
      | Some cur \<Rightarrow>
          (case (entry_id cur, entry_name cur) of
             (Some i, Some n) \<Rightarrow>
               progress0 @
                 [LanguageModelToolCallPart i n
                    (case parse (or_else (args cur) ''{}'') of
                       Some input \<Rightarrow> input
                     | None \<Rightarrow> JObject [(''raw'', JString (args cur))])]
           | _ \<Rightarrow> progress0))"

definition reportToolCalls :: "(string \<Rightarrow> json option) \<Rightarrow> (nat \<times> ToolCallEntry) list \<Rightarrow>
    part list \<Rightarrow> part list" where
  "reportToolCalls parse toolCallsByIndex progress0 =
     foldl (reportEntry parse toolCallsByIndex) progress0 (sort (map fst toolCallsByIndex))"

section \<open>The response stream of the SDK provider (provider.ts 356-392)\<close>

text \<open>
  The loop of the second provider of provider.ts. It ends by an exception in four
  places: the \<open>throw\<close> of line 359, whose \<open>Error\<close> has the empty message when the
  chunk's error has none; \<open>JSON.parse\<close> on the arguments of a fragment (line 374); and
  the \<open>TypeError\<close> of iterating absent choices (line 362) or of reading a member of an
  absent delta (line 369). The \<open>catch\<close> of lines 396-402 throws an \<open>Error\<close> with the
  message of what it caught. The text of the messages of \<open>SyntaxError\<close> and
  \<open>TypeError\<close> is the engine's: the failure records which of them was thrown
  (\<open>SyntaxError s\<close>: by \<open>JSON.parse\<close> on \<open>s\<close>).
\<close>

datatype Failure = Error string | SyntaxError string | TypeError

text \<open>
  Each function returns the failure, if any, and the parts reported to \<open>progress\<close> so
  far: a part reported before an exception stays reported.
\<close>

fun toolCallParts :: "(string \<Rightarrow> json option) \<Rightarrow> SdkToolCall list \<Rightarrow> part list \<Rightarrow>
    Failure option \<times> part list" where
  "toolCallParts parse [] out = (None, out)"
| "toolCallParts parse (toolCall # rest) out =
     (let arguments =
            nullish (case stc_function toolCall of None \<Rightarrow> None | Some f \<Rightarrow> fn_arguments f) ''{}''
      in case parse arguments of
           None \<Rightarrow> (Some (SyntaxError arguments), out)
         | Some input \<Rightarrow>
             toolCallParts parse rest
               (out @
                [LanguageModelToolCallPart (nullish (stc_id toolCall) [])
                   (nullish (case stc_function toolCall of None \<Rightarrow> None | Some f \<Rightarrow> fn_name f) [])
                   input]))"

definition elementParts :: "(string \<Rightarrow> json option) \<Rightarrow> SdkChoice \<Rightarrow> part list \<Rightarrow>
    Failure option \<times> part list" where
  "elementParts parse element out =
     (case sdk_delta element of
        None \<Rightarrow> (Some TypeError, out)
      | Some d \<Rightarrow>
          (let out1 = (if truthy (sd_content d)
                       then out @ [LanguageModelTextPart (nullish (sd_content d) [])]
                       else out)
           in case (case sd_toolCalls d of
                      None \<Rightarrow> (None, out1)
                    | Some calls \<Rightarrow> toolCallParts parse calls out1) of
                (Some e, out2) \<Rightarrow> (Some e, out2)
              | (None, out2) \<Rightarrow>
                  (None,
                   if truthy (sd_reasoning d)
                   then out2 @
                     [LanguageModelTextPart (''reasoning: '' @ nullish (sd_reasoning d) [])]
                   else out2)))"

fun elementsParts :: "(string \<Rightarrow> json option) \<Rightarrow> SdkChoice list \<Rightarrow> part list \<Rightarrow>
    Failure option \<times> part list" where
  "elementsParts parse [] out = (None, out)"
| "elementsParts parse (element # rest) out =
     (case elementParts parse element out of
        (Some e, out') \<Rightarrow> (Some e, out')
      | (None, out') \<Rightarrow> elementsParts parse rest out')"

fun sdkLoop :: "(string \<Rightarrow> json option) \<Rightarrow> ChatStreamingResponseChunkData list \<Rightarrow> part list \<Rightarrow>
    Failure option \<times> part list" where
  "sdkLoop parse [] out = (None, out)"
| "sdkLoop parse (chunk # rest) out =
     (case error chunk of
        Some err \<Rightarrow> (Some (Error (nullish (message err) [])), out)
      | None \<Rightarrow>
          (case sdk_choices chunk of
             None \<Rightarrow> (Some TypeError, out)
           | Some elements \<Rightarrow>
               (case elementsParts parse elements out of
                  (Some e, out') \<Rightarrow> (Some e, out')
                | (None, out') \<Rightarrow> sdkLoop parse rest out')))"

text \<open>
  \<open>streamResponse_sdk\<close>: how the request ends on a stream of chunks (\<open>None\<close>: the
  method returns) and what it has reported.
\<close>

definition streamResponse_sdk :: "(string \<Rightarrow> json option) \<Rightarrow> ChatStreamingResponseChunkData list \<Rightarrow>
    Failure option \<times> part list" where
  "streamResponse_sdk parse chunks = sdkLoop parse chunks []"

section \<open>Notions used in the statements\<close>

text \<open>
  The kinds of reported parts; an accumulator is \<open>dangling\<close> when its argument string is
  not empty and does not parse, and \<open>fallbackPart\<close> is the tool call reported for it
  with the empty object as input.
\<close>

fun isText :: "part \<Rightarrow> bool" where
  "isText (LanguageModelTextPart v) = True"
| "isText _ = False"

fun isToolCall :: "part \<Rightarrow> bool" where
  "isToolCall (LanguageModelToolCallPart i n a) = True"
| "isToolCall _ = False"

definition dangling :: "(string \<Rightarrow> json option) \<Rightarrow> Accumulator \<Rightarrow> bool" where
  "dangling parse acc \<longleftrightarrow> argsStr acc \<noteq> [] \<and> parse (argsStr acc) = None"

definition fallbackPart :: "Accumulator \<Rightarrow> part" where
  "fallbackPart acc = LanguageModelToolCallPart (acc_id acc) (acc_name acc) (JObject [])"

text \<open>
  The tool results and the texts among the content parts of a host message, in order,
  and the provider messages that the translation makes of them.
\<close>

fun toolResultsOf :: "part list \<Rightarrow> (string \<times> json) list" where
  "toolResultsOf [] = []"
| "toolResultsOf (LanguageModelToolResultPart callId c # ps) = (callId, c) # toolResultsOf ps"
| "toolResultsOf (p # ps) = toolResultsOf ps"

fun textsOf :: "part list \<Rightarrow> string list" where
  "textsOf [] = []"
| "textsOf (LanguageModelTextPart v # ps) = v # textsOf ps"
| "textsOf (p # ps) = textsOf ps"

definition toolMessage :: "(json \<Rightarrow> string) \<Rightarrow> string \<times> json \<Rightarrow> Message" where
  "toolMessage stringify r =
     \<lparr> role = RoleTool, content = ContentText (stringify (snd r)), toolCallId = Some (fst r),
       toolCalls = None \<rparr>"

definition textMessage :: "Role \<Rightarrow> string \<Rightarrow> Message" where
  "textMessage r v = \<lparr> role = r, content = ContentText v, toolCallId = None, toolCalls = None \<rparr>"

fun isContentText :: "Content \<Rightarrow> bool" where
  "isContentText (ContentText v) = True"
| "isContentText _ = False"

text \<open>
  Two invariants of the request's state. \<open>flagsAgree\<close>: each of the two flags says
  whether a part of its kind has been reported, and no reported text is blank.
  \<open>parsedReported\<close>: every accumulator of the table is dangling or has been reported
  with its present id and name.
\<close>

definition flagsAgree :: "StreamState \<Rightarrow> bool" where
  "flagsAgree st \<longleftrightarrow>
     (reportedText st = list_ex isText (progress st)) \<and>
     (reportedToolCall st = list_ex isToolCall (progress st)) \<and>
     list_all (\<lambda>p. case p of LanguageModelTextPart v \<Rightarrow> trim v \<noteq> [] | _ \<Rightarrow> True) (progress st)"

definition parsedReported :: "(string \<Rightarrow> json option) \<Rightarrow> StreamState \<Rightarrow> bool" where
  "parsedReported parse st \<longleftrightarrow>
     list_all
       (\<lambda>acc. dangling parse acc \<or>
          list_ex (\<lambda>p. case p of
                         LanguageModelToolCallPart i n a \<Rightarrow> i = acc_id acc \<and> n = acc_name acc
                       | _ \<Rightarrow> False)
            (progress st))
       (map snd (toolCallAccum st))"

section \<open>Properties of the identifier functions\<close>

lemma startsWith_append: "startsWith (p @ x) p"
  by (induction p) simp_all

lemma split_go_not_Nil: "split_go sep cur s \<noteq> []"
  by (induction s arbitrary: cur) simp_all

lemma split_go_hd: "hd (split_go sep cur s) = cur @ takeWhile (\<lambda>c. c \<noteq> sep) s"
  by (induction s arbitrary: cur) simp_all

lemma family_of_takeWhile: "family_of ident = takeWhile (\<lambda>c. c \<noteq> CHR ''/'') ident"
proof (cases "split ident (CHR ''/'')")
  case Nil
  then show ?thesis
    using split_go_not_Nil [of "CHR ''/''" "[]" ident] by (simp add: split_def)
next
  case (Cons seg rest)
  then have "seg = hd (split_go (CHR ''/'') [] ident)"
    by (simp add: split_def)
  then show ?thesis
    using Cons by (simp add: family_of_def split_go_hd)
qed

text \<open>
  C9. For every string \<open>x\<close> that does not begin with the model-id prefix,
  \<open>getOpenRouterModelId (prefix + x)\<close> is \<open>x\<close> and \<open>getOpenRouterModelId x\<close> is \<open>x\<close>.
  The function is a total HOL function with no error branch: it returns a string on
  every input, for every value of the prefix constant.
\<close>

theorem getOpenRouterModelId_roundtrip:
  "\<not> startsWith x pfx \<Longrightarrow>
     getOpenRouterModelId pfx (pfx @ x) = x \<and> getOpenRouterModelId pfx x = x"
  by (simp add: getOpenRouterModelId_def slice_def startsWith_append)

theorem getOpenRouterModelId_roundtrip_witness:
  "\<not> startsWith ''openai/gpt-4o'' MODEL_ID_PREFIX \<and>
   getOpenRouterModelId MODEL_ID_PREFIX (MODEL_ID_PREFIX @ ''openai/gpt-4o'') = ''openai/gpt-4o'' \<and>
   getOpenRouterModelId MODEL_ID_PREFIX ''openai/gpt-4o'' = ''openai/gpt-4o''"
proof -
  have h: "\<not> startsWith ''openai/gpt-4o'' MODEL_ID_PREFIX"
    by (simp add: MODEL_ID_PREFIX_def)
  show ?thesis
    using h getOpenRouterModelId_roundtrip [OF h] by simp
qed

text \<open>
  C5, as stated, fails: for the native id \<open>gpt-4o\<close>, which has no \<open>/\<close>, the family of
  the descriptor is \<open>gpt-4o\<close>, not \<open>unknown\<close>, in the adapter and in the provider's own
  listing. \<open>split\<close> never returns an empty array, so the right operand of \<open>??\<close> is never
  taken.
\<close>

theorem family_without_slash_counterexample:
  "family (convertModelInformation MODEL_ID_PREFIX
     \<lparr> model_id = ''gpt-4o'', model_name = ''GPT-4o'', contextLength = None, topProvider = None,
       architecture = None, supportedParameters = None \<rparr>) = ''gpt-4o'' \<and>
   map family (provideLanguageModelChatInformation MODEL_ID_PREFIX
     [\<lparr> data_id = ''gpt-4o'', data_name = Some ''GPT-4o'', context_length = None,
        supported_parameters = None, data_architecture = None, top_provider = None \<rparr>]) =
     [''gpt-4o'']"
  by (simp add: convertModelInformation_def provideLanguageModelChatInformation_def
      modelInformation_def resolveModelCapabilities_def family_of_def split_def)

text \<open>
  C5, amended. For every provider model record, the family of the descriptor is the part
  of the native id before its first \<open>/\<close>; when the id has no \<open>/\<close> this is the whole id
  (never the literal \<open>unknown\<close> by way of the fallback). The same holds for the
  descriptor that the provider's own listing builds for a record with an id.
\<close>

theorem family_is_first_segment:
  "family (convertModelInformation pfx model) =
     takeWhile (\<lambda>c. c \<noteq> CHR ''/'') (model_id model) \<and>
   (CHR ''/'' \<notin> set (model_id model) \<longrightarrow>
      family (convertModelInformation pfx model) = model_id model) \<and>
   (data_id m \<noteq> [] \<longrightarrow>
      map_option family (modelInformation pfx m) =
        Some (takeWhile (\<lambda>c. c \<noteq> CHR ''/'') (data_id m)))"
  by (auto simp add: convertModelInformation_def modelInformation_def
      resolveModelCapabilities_def Let_def family_of_takeWhile takeWhile_eq_all_conv)

theorem family_is_first_segment_witness:
  "CHR ''/'' \<notin> set ''gpt-4o'' \<and>
   family (convertModelInformation MODEL_ID_PREFIX
     \<lparr> model_id = ''gpt-4o'', model_name = ''GPT-4o'', contextLength = Some 128000,
       topProvider = None, architecture = None, supportedParameters = None \<rparr>) = ''gpt-4o'' \<and>
   ''openai/gpt-4o'' \<noteq> [] \<and>
   map_option family (modelInformation MODEL_ID_PREFIX
     \<lparr> data_id = ''openai/gpt-4o'', data_name = None, context_length = Some 128000,
       supported_parameters = None, data_architecture = None, top_provider = None \<rparr>) =
     Some ''openai''"
  using family_is_first_segment [of MODEL_ID_PREFIX
     "\<lparr> model_id = ''gpt-4o'', model_name = ''GPT-4o'', contextLength = Some 128000,
        topProvider = None, architecture = None, supportedParameters = None \<rparr>"
     "\<lparr> data_id = ''openai/gpt-4o'', data_name = None, context_length = Some 128000,
        supported_parameters = None, data_architecture = None, top_provider = None \<rparr>"]
  by simp

section \<open>Properties of the translation\<close>

lemma foldl_append_concat: "foldl (\<lambda>out x. out @ f x) out xs = out @ concat (map f xs)"
  by (induction xs arbitrary: out) simp_all

lemma foldl_foldl_append_concat:
  "foldl (\<lambda>out x. foldl (\<lambda>out y. out @ f x y) out (g x)) out xs =
     out @ concat (map (\<lambda>x. concat (map (f x) (g x))) xs)"
  by (induction xs arbitrary: out) (simp_all add: foldl_append_concat)

lemma vscodeMessagesToOpenRouter_concat:
  "vscodeMessagesToOpenRouter stringify btoa messages =
     concat (map (\<lambda>msg. concat (map (pushed stringify btoa (msg_role msg)) (msg_content msg)))
       messages)"
  unfolding vscodeMessagesToOpenRouter_def
  using foldl_foldl_append_concat
    [of "\<lambda>msg. pushed stringify btoa (msg_role msg)" msg_content "[]" messages]
  by simp

lemma convertRole_not_tool: "convertRole r \<noteq> RoleTool"
  by (cases r) simp_all

lemma tool_of_parts:
  "filter (\<lambda>m. role m = RoleTool) (concat (map (pushed stringify btoa r) ps)) =
     map (toolMessage stringify) (toolResultsOf ps)"
  by (induction ps rule: toolResultsOf.induct)
     (simp_all add: toolMessage_def convertRole_not_tool Let_def)

lemma text_of_parts:
  "filter (\<lambda>m. (role m = RoleUser \<or> role m = RoleAssistant) \<and> isContentText (content m))
       (concat (map (pushed stringify btoa r) ps)) =
     (if r = OtherRole then [] else map (textMessage (convertRole r)) (textsOf ps))"
  by (induction ps rule: textsOf.induct)
     (cases r; simp add: textMessage_def Let_def)+

text \<open>
  C1, as stated, fails: a user message that holds the text \<open>done\<close> and a tool result
  is translated to the user's text entry followed by the tool entry. The text part of
  the message that bears the tool result is not dropped: \<open>convertRole\<close> never returns
  the tool role, so the test of line 63 always passes.
\<close>

theorem text_beside_tool_result_counterexample:
  "vscodeMessagesToOpenRouter JSON_stringify base64
     [\<lparr> msg_role = User,
        msg_content =
          [LanguageModelTextPart ''done'', LanguageModelToolResultPart ''call_1'' (JArray [])] \<rparr>] =
     [\<lparr> role = RoleUser, content = ContentText ''done'', toolCallId = None, toolCalls = None \<rparr>,
      \<lparr> role = RoleTool, content = ContentText ''[]'', toolCallId = Some ''call_1'',
        toolCalls = None \<rparr>]"
  by (simp add: vscodeMessagesToOpenRouter_def)

text \<open>
  C1, amended. For every list of host messages, the provider messages of role tool are,
  in order, exactly one for each tool-result part, carrying that part's call id and the
  JSON-stringified content; and the text entries of role user or assistant are, in
  order, exactly one for each text part of a user or assistant message, with that role
  and that text, whether or not the message also holds a tool result.
\<close>

theorem tool_results_and_texts_translated:
  "filter (\<lambda>m. role m = RoleTool) (vscodeMessagesToOpenRouter stringify btoa messages) =
     map (toolMessage stringify) (concat (map (\<lambda>msg. toolResultsOf (msg_content msg)) messages)) \<and>
   filter (\<lambda>m. (role m = RoleUser \<or> role m = RoleAssistant) \<and> isContentText (content m))
       (vscodeMessagesToOpenRouter stringify btoa messages) =
     concat (map (\<lambda>msg. if msg_role msg = OtherRole then []
                         else map (textMessage (convertRole (msg_role msg)))
                                (textsOf (msg_content msg)))
       messages)"
  by (induction messages)
     (simp_all add: vscodeMessagesToOpenRouter_concat tool_of_parts text_of_parts map_concat)

section \<open>Properties of the request's messages\<close>

lemma findIndex_Some:
  "findIndex P xs = Some k \<Longrightarrow> k < length xs \<and> P (xs ! k) \<and> \<not> list_ex P (take k xs)"
  by (induction xs arbitrary: k) (auto split: if_splits)

lemma map_enumerate_above:
  "k < n \<Longrightarrow> map (\<lambda>(i, m). if i = k then f m else m) (enumerate n xs) = xs"
  by (induction xs arbitrary: n) simp_all

lemma map_enumerate_update:
  "k < length xs \<Longrightarrow>
     map (\<lambda>(i, m). if i = n + k then f m else m) (enumerate n xs) = xs[k := f (xs ! k)]"
proof (induction xs arbitrary: n k)
  case Nil
  then show ?case by simp
next
  case (Cons x xs)
  show ?case
  proof (cases k)
    case 0
    then show ?thesis
      by (simp add: map_enumerate_above)
  next
    case (Suc j)
    with Cons.prems have "j < length xs"
      by simp
    from Cons.IH [OF this, of "Suc n"] Suc show ?thesis
      by simp
  qed
qed

lemma applySystemPrompt_Some:
  "ov \<noteq> [] \<Longrightarrow>
     applySystemPrompt (Some ov) orMessages =
       systemMessage ov # filter (\<lambda>msg. role msg \<noteq> RoleSystem) orMessages"
  by (simp add: applySystemPrompt_def)

lemma applySystemPrompt_part000_Some:
  assumes "ov \<noteq> []"
  shows "applySystemPrompt_part000 (Some ov) orMessages =
     (case findIndex (\<lambda>m. role m = RoleSystem) orMessages of
        None \<Rightarrow> systemMessage ov # orMessages
      | Some k \<Rightarrow> orMessages[k := (orMessages ! k)\<lparr> content := ContentText ov \<rparr>])"
proof (cases "findIndex (\<lambda>m. role m = RoleSystem) orMessages")
  case None
  with assms show ?thesis
    by (simp add: applySystemPrompt_part000_def)
next
  case (Some k)
  then have "k < length orMessages"
    by (simp add: findIndex_Some)
  from map_enumerate_update [OF this, of 0 "\<lambda>m. m\<lparr> content := ContentText ov \<rparr>"] Some assms
  show ?thesis
    by (simp add: applySystemPrompt_part000_def)
qed

text \<open>
  C2, as stated, fails twice. In provider.ts the setting is trimmed before it is tested:
  the override of three spaces, which is configured and not empty, changes nothing, and
  the system message of the translation is sent. In the unnamed provider the override
  \<open>be terse\<close> is written into the first system entry where it stands, after the user's
  entry, and the second system entry is sent as it was.
\<close>

theorem system_prompt_counterexample:
  "requestMessages JSON_stringify base64 (Some ''   '')
     [\<lparr> msg_role = OtherRole, msg_content = [LanguageModelTextPart ''be brief''] \<rparr>,
      \<lparr> msg_role = User, msg_content = [LanguageModelTextPart ''hi''] \<rparr>] =
     Inr [\<lparr> role = RoleSystem, content = ContentText ''be brief'', toolCallId = None,
            toolCalls = None \<rparr>,
          \<lparr> role = RoleUser, content = ContentText ''hi'', toolCallId = None, toolCalls = None \<rparr>] \<and>
   requestMessages_part000 (Some ''be terse'')
     [\<lparr> msg_role = User, msg_content = [LanguageModelTextPart ''hi''] \<rparr>,
      \<lparr> msg_role = OtherRole, msg_content = [LanguageModelTextPart ''be brief''] \<rparr>,
      \<lparr> msg_role = OtherRole, msg_content = [LanguageModelTextPart ''be kind''] \<rparr>] =
     Inr [\<lparr> role = RoleUser, content = ContentText ''hi'', toolCallId = None, toolCalls = None \<rparr>,
          \<lparr> role = RoleSystem, content = ContentText ''be terse'', toolCallId = None,
            toolCalls = None \<rparr>,
          \<lparr> role = RoleSystem, content = ContentText ''be kind'', toolCallId = None,
            toolCalls = None \<rparr>]"
  by (simp add: requestMessages_def requestMessages_part000_def vscodeMessagesToOpenRouter_def
      applySystemPrompt_def applySystemPrompt_part000_def translate_part000_def trim_def
      js_white_def enumerate_eq_zip upt_rec)

text \<open>
  C2, amended. For every list of host messages and every setting \<open>s\<close>: when the trimmed
  text of \<open>s\<close> is not empty and the translation is not empty, both providers of
  provider.ts send the system message that holds the trimmed text, followed by the
  translated messages that are not system messages, in their order, so that the list
  sent has exactly one system message, the new one, in first place; when the trimmed
  text is empty, they send what they send when the setting is absent. The unnamed
  provider instead writes the trimmed text into the first system entry of its
  translation where it stands and keeps every other entry, and puts a new system entry
  in front only when the translation has none.
\<close>

theorem system_prompt_override:
  "(trim s \<noteq> [] \<and> vscodeMessagesToOpenRouter stringify btoa messages \<noteq> [] \<longrightarrow>
      (\<exists>rest. requestMessages stringify btoa (Some s) messages =
           Inr (systemMessage (trim s) # rest) \<and>
         rest = filter (\<lambda>msg. role msg \<noteq> RoleSystem)
                  (vscodeMessagesToOpenRouter stringify btoa messages) \<and>
         \<not> list_ex (\<lambda>msg. role msg = RoleSystem) rest)) \<and>
   (trim s = [] \<longrightarrow>
      requestMessages stringify btoa (Some s) messages =
        requestMessages stringify btoa None messages) \<and>
   (trim s \<noteq> [] \<longrightarrow>
      requestMessages_part000 (Some s) messages =
        Inr (case findIndex (\<lambda>m. role m = RoleSystem) (translate_part000 messages) of
               None \<Rightarrow> systemMessage (trim s) # translate_part000 messages
             | Some k \<Rightarrow>
                 (translate_part000 messages)
                   [k := (translate_part000 messages ! k)\<lparr> content := ContentText (trim s) \<rparr>]))"
proof (intro conjI impI)
  assume "trim s \<noteq> [] \<and> vscodeMessagesToOpenRouter stringify btoa messages \<noteq> []"
  then show "\<exists>rest. requestMessages stringify btoa (Some s) messages =
           Inr (systemMessage (trim s) # rest) \<and>
         rest = filter (\<lambda>msg. role msg \<noteq> RoleSystem)
                  (vscodeMessagesToOpenRouter stringify btoa messages) \<and>
         \<not> list_ex (\<lambda>msg. role msg = RoleSystem) rest"
    by (simp add: requestMessages_def applySystemPrompt_Some Let_def list_ex_iff)
next
  assume "trim s = []"
  then show "requestMessages stringify btoa (Some s) messages =
      requestMessages stringify btoa None messages"
    by (simp add: requestMessages_def applySystemPrompt_def Let_def)
next
  assume nonblank: "trim s \<noteq> []"
  let ?t = "translate_part000 messages"
  let ?r = "applySystemPrompt_part000 (Some (trim s)) ?t"
  have r: "?r = (case findIndex (\<lambda>m. role m = RoleSystem) ?t of
        None \<Rightarrow> systemMessage (trim s) # ?t
      | Some k \<Rightarrow> ?t[k := (?t ! k)\<lparr> content := ContentText (trim s) \<rparr>])"
    using nonblank by (rule applySystemPrompt_part000_Some)
  have "?r \<noteq> []"
  proof (cases "findIndex (\<lambda>m. role m = RoleSystem) ?t")
    case None
    with r show ?thesis by simp
  next
    case (Some k)
    then have "k < length ?t"
      by (simp add: findIndex_Some)
    with r Some show ?thesis by auto
  qed
  with r show "requestMessages_part000 (Some s) messages =
      Inr (case findIndex (\<lambda>m. role m = RoleSystem) ?t of
             None \<Rightarrow> systemMessage (trim s) # ?t
           | Some k \<Rightarrow> ?t[k := (?t ! k)\<lparr> content := ContentText (trim s) \<rparr>])"
    by (simp add: requestMessages_part000_def Let_def)
qed

theorem system_prompt_override_witness:
  "trim '' be terse '' \<noteq> [] \<and>
   vscodeMessagesToOpenRouter JSON_stringify base64
     [\<lparr> msg_role = OtherRole, msg_content = [LanguageModelTextPart ''be brief''] \<rparr>,
      \<lparr> msg_role = User, msg_content = [LanguageModelTextPart ''hi''] \<rparr>] \<noteq> [] \<and>
   requestMessages JSON_stringify base64 (Some '' be terse '')
     [\<lparr> msg_role = OtherRole, msg_content = [LanguageModelTextPart ''be brief''] \<rparr>,
      \<lparr> msg_role = User, msg_content = [LanguageModelTextPart ''hi''] \<rparr>] =
     Inr [systemMessage ''be terse'',
          \<lparr> role = RoleUser, content = ContentText ''hi'', toolCallId = None, toolCalls = None \<rparr>] \<and>
   requestMessages_part000 (Some '' be terse '')
     [\<lparr> msg_role = User, msg_content = [LanguageModelTextPart ''hi''] \<rparr>,
      \<lparr> msg_role = OtherRole, msg_content = [LanguageModelTextPart ''be brief''] \<rparr>] =
     Inr [\<lparr> role = RoleUser, content = ContentText ''hi'', toolCallId = None, toolCalls = None \<rparr>,
          \<lparr> role = RoleSystem, content = ContentText ''be terse'', toolCallId = None,
            toolCalls = None \<rparr>] \<and>
   trim ''   '' = [] \<and>
   requestMessages JSON_stringify base64 (Some ''   '')
     [\<lparr> msg_role = User, msg_content = [LanguageModelTextPart ''hi''] \<rparr>] =
     requestMessages JSON_stringify base64 None
       [\<lparr> msg_role = User, msg_content = [LanguageModelTextPart ''hi''] \<rparr>]"
proof -
  have h: "trim '' be terse '' \<noteq> []"
    by (simp add: trim_def js_white_def)
  have t: "trim '' be terse '' = ''be terse''"
    by (simp add: trim_def js_white_def)
  have b: "trim ''   '' = []"
    by (simp add: trim_def js_white_def)
  have n: "vscodeMessagesToOpenRouter JSON_stringify base64
     [\<lparr> msg_role = OtherRole, msg_content = [LanguageModelTextPart ''be brief''] \<rparr>,
      \<lparr> msg_role = User, msg_content = [LanguageModelTextPart ''hi''] \<rparr>] =
     [\<lparr> role = RoleSystem, content = ContentText ''be brief'', toolCallId = None,
        toolCalls = None \<rparr>,
      \<lparr> role = RoleUser, content = ContentText ''hi'', toolCallId = None, toolCalls = None \<rparr>]"
    by (simp add: vscodeMessagesToOpenRouter_def)
  have p: "translate_part000
     [\<lparr> msg_role = User, msg_content = [LanguageModelTextPart ''hi''] \<rparr>,
      \<lparr> msg_role = OtherRole, msg_content = [LanguageModelTextPart ''be brief''] \<rparr>] =
     [\<lparr> role = RoleUser, content = ContentText ''hi'', toolCallId = None, toolCalls = None \<rparr>,
      \<lparr> role = RoleSystem, content = ContentText ''be brief'', toolCallId = None,
        toolCalls = None \<rparr>]"
    by (simp add: translate_part000_def)
  from system_prompt_override [of "'' be terse ''" JSON_stringify base64
     "[\<lparr> msg_role = OtherRole, msg_content = [LanguageModelTextPart ''be brief''] \<rparr>,
      \<lparr> msg_role = User, msg_content = [LanguageModelTextPart ''hi''] \<rparr>]"]
  have one: "requestMessages JSON_stringify base64 (Some '' be terse '')
     [\<lparr> msg_role = OtherRole, msg_content = [LanguageModelTextPart ''be brief''] \<rparr>,
      \<lparr> msg_role = User, msg_content = [LanguageModelTextPart ''hi''] \<rparr>] =
     Inr [systemMessage ''be terse'',
          \<lparr> role = RoleUser, content = ContentText ''hi'', toolCallId = None, toolCalls = None \<rparr>]"
    by (simp add: n t)
  from system_prompt_override [of "'' be terse ''" JSON_stringify base64
     "[\<lparr> msg_role = User, msg_content = [LanguageModelTextPart ''hi''] \<rparr>,
      \<lparr> msg_role = OtherRole, msg_content = [LanguageModelTextPart ''be brief''] \<rparr>]"]
  have two: "requestMessages_part000 (Some '' be terse '')
     [\<lparr> msg_role = User, msg_content = [LanguageModelTextPart ''hi''] \<rparr>,
      \<lparr> msg_role = OtherRole, msg_content = [LanguageModelTextPart ''be brief''] \<rparr>] =
     Inr [\<lparr> role = RoleUser, content = ContentText ''hi'', toolCallId = None, toolCalls = None \<rparr>,
          \<lparr> role = RoleSystem, content = ContentText ''be terse'', toolCallId = None,
            toolCalls = None \<rparr>]"
    by (simp add: p t)
  from system_prompt_override [of "''   ''" JSON_stringify base64
     "[\<lparr> msg_role = User, msg_content = [LanguageModelTextPart ''hi''] \<rparr>]"]
  have three: "requestMessages JSON_stringify base64 (Some ''   '')
     [\<lparr> msg_role = User, msg_content = [LanguageModelTextPart ''hi''] \<rparr>] =
     requestMessages JSON_stringify base64 None
       [\<lparr> msg_role = User, msg_content = [LanguageModelTextPart ''hi''] \<rparr>]"
    by (simp add: b)
  from h n one two b three show ?thesis
    by simp
qed

section \<open>Properties of the response stream\<close>

lemmas stream_defs =
  streamResponse_def beforePlaceholder_def streamLoop_def onChunk_def onChoice_def
  onReasoning_def onContent_def onToolCalls_def onToolCall_def accumulate_def
  danglingToolCalls_def onDangling_def closeThinking_def placeholder_def report_def
  initialState_def nullish_def truthy_def trim_def js_white_def

lemmas json_defs =
  JSON_parse_def tokenize_def idle_step_def finish_word_def word_char_def is_digit_def
  is_letter_def json_white_def is_json_number_def strip_minus_def int_part_ok_def
  fraction_ok_def

lemma parse_partial: \<open>JSON_parse ''{"x":'' = None\<close>
  by (simp add: json_defs)

lemma parse_whole: \<open>JSON_parse ''{"x":1}'' = Some (JObject [(''x'', JNumber ''1'')])\<close>
  by (simp add: json_defs)

lemma foldl_preserves:
  assumes "\<And>s x. P s \<Longrightarrow> P (f s x)" and "P s"
  shows "P (foldl f s xs)"
  using assms(2) by (induction xs arbitrary: s) (simp_all add: assms(1))

text \<open>
  C7. For the stream whose first chunk carries only the reasoning fragment \<open>think\<close> and
  whose second chunk carries only the text \<open>hello\<close>, the parts reported are exactly:
  the thinking part with \<open>think\<close>, the closing marker (empty fragment, done flag set),
  the text part with \<open>hello\<close>, in that order. This is the provider of provider.ts
  129-243, whatever \<open>JSON.parse\<close> does.
\<close>

theorem reasoning_then_text:
  "streamResponse parse
     [\<lparr> choices = Some [\<lparr> delta = Some \<lparr> reasoning = Some ''think'', delta_content = None,
          tool_calls = None \<rparr> \<rparr>] \<rparr>,
      \<lparr> choices = Some [\<lparr> delta = Some \<lparr> reasoning = None, delta_content = Some ''hello'',
          tool_calls = None \<rparr> \<rparr>] \<rparr>] =
     [LanguageModelThinkingPart ''think'' [] False,
      LanguageModelThinkingPart [] [] True,
      LanguageModelTextPart ''hello'']"
  by (simp add: stream_defs)

text \<open>
  C4. The first chunk carries the fragment of index 0 with id \<open>a\<close>, name \<open>f\<close> and the
  arguments \<open>{"x":\<close>; the second carries the arguments \<open>1}\<close> for index 0. After the
  first chunk nothing has been reported; after the second, and when the method returns,
  exactly one part has been reported, the tool call \<open>a\<close>, \<open>f\<close> with the input
  \<open>{x: 1}\<close>.
\<close>

theorem two_fragments_one_tool_call:
  \<open>progress (streamLoop JSON_parse
     [\<lparr> choices = Some [\<lparr> delta = Some \<lparr> reasoning = None, delta_content = None,
          tool_calls = Some [\<lparr> tc_index = Some 0, tc_id = Some ''a'',
            tc_function = Some \<lparr> fn_name = Some ''f'', fn_arguments = Some ''{"x":'' \<rparr> \<rparr>] \<rparr> \<rparr>] \<rparr>])
     = [] \<and>
   progress (streamLoop JSON_parse
     [\<lparr> choices = Some [\<lparr> delta = Some \<lparr> reasoning = None, delta_content = None,
          tool_calls = Some [\<lparr> tc_index = Some 0, tc_id = Some ''a'',
            tc_function = Some \<lparr> fn_name = Some ''f'', fn_arguments = Some ''{"x":'' \<rparr> \<rparr>] \<rparr> \<rparr>] \<rparr>,
      \<lparr> choices = Some [\<lparr> delta = Some \<lparr> reasoning = None, delta_content = None,
          tool_calls = Some [\<lparr> tc_index = Some 0, tc_id = None,
            tc_function = Some \<lparr> fn_name = None, fn_arguments = Some ''1}'' \<rparr> \<rparr>] \<rparr> \<rparr>] \<rparr>])
     = [LanguageModelToolCallPart ''a'' ''f'' (JObject [(''x'', JNumber ''1'')])] \<and>
   streamResponse JSON_parse
     [\<lparr> choices = Some [\<lparr> delta = Some \<lparr> reasoning = None, delta_content = None,
          tool_calls = Some [\<lparr> tc_index = Some 0, tc_id = Some ''a'',
            tc_function = Some \<lparr> fn_name = Some ''f'', fn_arguments = Some ''{"x":'' \<rparr> \<rparr>] \<rparr> \<rparr>] \<rparr>,
      \<lparr> choices = Some [\<lparr> delta = Some \<lparr> reasoning = None, delta_content = None,
          tool_calls = Some [\<lparr> tc_index = Some 0, tc_id = None,
            tc_function = Some \<lparr> fn_name = None, fn_arguments = Some ''1}'' \<rparr> \<rparr>] \<rparr> \<rparr>] \<rparr>]
     = [LanguageModelToolCallPart ''a'' ''f'' (JObject [(''x'', JNumber ''1'')])]\<close>
  by (simp add: stream_defs parse_partial parse_whole)

subsection \<open>The flags follow the reports\<close>

lemma flagsAgree_initial: "flagsAgree initialState"
  by (simp add: flagsAgree_def initialState_def)

lemma flagsAgree_onReasoning: "flagsAgree st \<Longrightarrow> flagsAgree (onReasoning st d)"
  by (simp add: flagsAgree_def onReasoning_def report_def)

lemma flagsAgree_onContent: "flagsAgree st \<Longrightarrow> flagsAgree (onContent st d)"
  by (auto simp add: flagsAgree_def onContent_def report_def split: option.splits)

lemma flagsAgree_onToolCall: "flagsAgree st \<Longrightarrow> flagsAgree (onToolCall parse st tc)"
  by (auto simp add: flagsAgree_def onToolCall_def report_def Let_def split: option.splits)

lemma flagsAgree_onToolCalls: "flagsAgree st \<Longrightarrow> flagsAgree (onToolCalls parse st d)"
  by (auto simp add: onToolCalls_def split: option.splits
      intro: foldl_preserves flagsAgree_onToolCall)

lemma flagsAgree_onChoice: "flagsAgree st \<Longrightarrow> flagsAgree (onChoice parse st c)"
  by (simp add: onChoice_def flagsAgree_onReasoning flagsAgree_onContent flagsAgree_onToolCalls
      split: option.splits)

lemma flagsAgree_onChunk: "flagsAgree st \<Longrightarrow> flagsAgree (onChunk parse st c)"
  unfolding onChunk_def by (rule foldl_preserves) (simp_all add: flagsAgree_onChoice)

lemma flagsAgree_streamLoop: "flagsAgree (streamLoop parse chunks)"
  unfolding streamLoop_def
  by (rule foldl_preserves) (simp_all add: flagsAgree_onChunk flagsAgree_initial)

lemma flagsAgree_onDangling: "flagsAgree st \<Longrightarrow> flagsAgree (onDangling parse st acc)"
  by (auto simp add: flagsAgree_def onDangling_def report_def split: option.splits)

lemma flagsAgree_danglingToolCalls: "flagsAgree st \<Longrightarrow> flagsAgree (danglingToolCalls parse st)"
  unfolding danglingToolCalls_def by (rule foldl_preserves) (simp_all add: flagsAgree_onDangling)

lemma flagsAgree_closeThinking: "flagsAgree st \<Longrightarrow> flagsAgree (closeThinking st)"
  by (simp add: flagsAgree_def closeThinking_def report_def)

lemma flagsAgree_beforePlaceholder: "flagsAgree (beforePlaceholder parse chunks)"
  by (simp add: beforePlaceholder_def flagsAgree_closeThinking flagsAgree_danglingToolCalls
      flagsAgree_streamLoop)

lemma trim_space: "trim '' '' = []"
  by (simp add: trim_def js_white_def)

text \<open>
  C8. Let \<open>body\<close> be what has been reported when line 240 is reached: the parts of the
  loop, the fallbacks of the dangling tool calls and the closing marker. When \<open>body\<close>
  holds no text part and no tool-call part, the method reports \<open>body\<close> followed by one
  text part that holds a single space; when \<open>body\<close> holds a text part or a tool-call
  part, it reports \<open>body\<close> and nothing more. In both cases \<open>body\<close> itself holds no text
  part of a single space, so the placeholder is reported exactly once in the first case
  and never in the second.
\<close>

theorem placeholder_iff_nothing_reported:
  "(\<not> list_ex isText (progress (beforePlaceholder parse chunks)) \<and>
    \<not> list_ex isToolCall (progress (beforePlaceholder parse chunks)) \<longrightarrow>
      streamResponse parse chunks =
        progress (beforePlaceholder parse chunks) @ [LanguageModelTextPart '' '']) \<and>
   (list_ex isText (progress (beforePlaceholder parse chunks)) \<or>
    list_ex isToolCall (progress (beforePlaceholder parse chunks)) \<longrightarrow>
      streamResponse parse chunks = progress (beforePlaceholder parse chunks)) \<and>
   LanguageModelTextPart '' '' \<notin> set (progress (beforePlaceholder parse chunks))"
proof -
  let ?st = "beforePlaceholder parse chunks"
  have inv: "flagsAgree ?st"
    by (rule flagsAgree_beforePlaceholder)
  have "LanguageModelTextPart '' '' \<notin> set (progress ?st)"
  proof
    assume "LanguageModelTextPart '' '' \<in> set (progress ?st)"
    with inv have "trim '' '' \<noteq> []"
      by (auto simp add: flagsAgree_def list_all_iff)
    then show False
      by (simp add: trim_space)
  qed
  moreover from inv have "reportedText ?st = list_ex isText (progress ?st)"
    and "reportedToolCall ?st = list_ex isToolCall (progress ?st)"
    by (simp_all add: flagsAgree_def)
  ultimately show ?thesis
    by (simp add: streamResponse_def placeholder_def report_def)
qed

theorem placeholder_iff_nothing_reported_witness:
  "\<not> list_ex isText (progress (beforePlaceholder JSON_parse [\<lparr> choices = None \<rparr>])) \<and>
   \<not> list_ex isToolCall (progress (beforePlaceholder JSON_parse [\<lparr> choices = None \<rparr>])) \<and>
   streamResponse JSON_parse [\<lparr> choices = None \<rparr>] = [LanguageModelTextPart '' ''] \<and>
   list_ex isText (progress (beforePlaceholder JSON_parse
     [\<lparr> choices = Some [\<lparr> delta = Some \<lparr> reasoning = None, delta_content = Some ''hello'',
          tool_calls = None \<rparr> \<rparr>] \<rparr>])) \<and>
   streamResponse JSON_parse
     [\<lparr> choices = Some [\<lparr> delta = Some \<lparr> reasoning = None, delta_content = Some ''hello'',
          tool_calls = None \<rparr> \<rparr>] \<rparr>] = [LanguageModelTextPart ''hello'']"
proof -
  have a: "progress (beforePlaceholder JSON_parse [\<lparr> choices = None \<rparr>]) = []"
    by (simp add: stream_defs)
  have b: "progress (beforePlaceholder JSON_parse
     [\<lparr> choices = Some [\<lparr> delta = Some \<lparr> reasoning = None, delta_content = Some ''hello'',
          tool_calls = None \<rparr> \<rparr>] \<rparr>]) = [LanguageModelTextPart ''hello'']"
    by (simp add: stream_defs)
  show ?thesis
    using placeholder_iff_nothing_reported [of JSON_parse "[\<lparr> choices = None \<rparr>]"]
      placeholder_iff_nothing_reported [of JSON_parse
        "[\<lparr> choices = Some [\<lparr> delta = Some \<lparr> reasoning = None, delta_content = Some ''hello'',
             tool_calls = None \<rparr> \<rparr>] \<rparr>]"]
    by (simp add: a b)
qed

subsection \<open>The fallback for dangling tool calls\<close>

lemma onDangling_progress:
  "progress (onDangling parse st acc) =
     progress st @ (if dangling parse acc then [fallbackPart acc] else [])"
  by (simp add: onDangling_def dangling_def fallbackPart_def report_def split: option.splits)

lemma foldl_onDangling_progress:
  "progress (foldl (onDangling parse) st accs) =
     progress st @ map fallbackPart (filter (dangling parse) accs)"
  by (induction accs arbitrary: st) (simp_all add: onDangling_progress)

lemma danglingToolCalls_progress:
  "progress (danglingToolCalls parse st) =
     progress st @ map fallbackPart (filter (dangling parse) (map snd (toolCallAccum st)))"
  by (simp add: danglingToolCalls_def foldl_onDangling_progress)

lemma after_dangling:
  "\<exists>rest. progress (placeholder (closeThinking st)) = progress st @ rest \<and>
     \<not> list_ex isToolCall rest"
  by (simp add: placeholder_def closeThinking_def report_def)

lemma set_map_set: "set (map_set k v es) \<subseteq> insert (k, v) (set es)"
  by (induction es) auto

lemma matches_tool_call:
  "(case p of LanguageModelToolCallPart j m a \<Rightarrow> j = i \<and> m = n | _ \<Rightarrow> False) \<longleftrightarrow>
     (\<exists>input. p = LanguageModelToolCallPart i n input)"
  by (cases p) auto

lemma parsedReported_iff:
  "parsedReported parse st \<longleftrightarrow>
     (\<forall>acc \<in> set (map snd (toolCallAccum st)).
        dangling parse acc \<or>
        (\<exists>input. LanguageModelToolCallPart (acc_id acc) (acc_name acc) input \<in>
           set (progress st)))"
  unfolding parsedReported_def list_all_iff list_ex_iff matches_tool_call
  by blast

text \<open>
  What one fragment does (lines 201-221): it writes one accumulator into the table, and
  it reports that accumulator's tool call unless the accumulator is dangling, in which
  case it reports nothing.
\<close>

lemma onToolCall_effect:
  "\<exists>index acc.
     toolCallAccum (onToolCall parse st tc) = map_set index acc (toolCallAccum st) \<and>
     (if dangling parse acc then progress (onToolCall parse st tc) = progress st
      else \<exists>input. progress (onToolCall parse st tc) =
             progress st @ [LanguageModelToolCallPart (acc_id acc) (acc_name acc) input])"
proof -
  let ?index = "nullish (tc_index tc) 0"
  let ?acc = "accumulate tc
                (case map_of (toolCallAccum st) ?index of
                   None \<Rightarrow> \<lparr> acc_id = [], acc_name = [], argsStr = [] \<rparr>
                 | Some a \<Rightarrow> a)"
  have "toolCallAccum (onToolCall parse st tc) = map_set ?index ?acc (toolCallAccum st)"
    by (simp add: onToolCall_def Let_def report_def split: option.splits)
  moreover have "if dangling parse ?acc then progress (onToolCall parse st tc) = progress st
      else \<exists>input. progress (onToolCall parse st tc) =
             progress st @ [LanguageModelToolCallPart (acc_id ?acc) (acc_name ?acc) input]"
    by (simp add: onToolCall_def Let_def report_def dangling_def split: option.splits)
  ultimately show ?thesis
    by blast
qed

lemma parsedReported_onToolCall:
  assumes "parsedReported parse st"
  shows "parsedReported parse (onToolCall parse st tc)"
proof -
  obtain index acc where
    tbl: "toolCallAccum (onToolCall parse st tc) = map_set index acc (toolCallAccum st)" and
    prg: "if dangling parse acc then progress (onToolCall parse st tc) = progress st
      else \<exists>input. progress (onToolCall parse st tc) =
             progress st @ [LanguageModelToolCallPart (acc_id acc) (acc_name acc) input]"
    using onToolCall_effect [of parse st tc] by blast
  have sub: "set (map snd (map_set index acc (toolCallAccum st))) \<subseteq>
      insert acc (set (map snd (toolCallAccum st)))"
    using set_map_set [of index acc "toolCallAccum st"] by auto
  show ?thesis
    unfolding parsedReported_iff
  proof
    fix a
    assume "a \<in> set (map snd (toolCallAccum (onToolCall parse st tc)))"
    with tbl sub have "a = acc \<or> a \<in> set (map snd (toolCallAccum st))"
      by auto
    then show "dangling parse a \<or>
        (\<exists>input. LanguageModelToolCallPart (acc_id a) (acc_name a) input \<in>
           set (progress (onToolCall parse st tc)))"
    proof
      assume "a = acc"
      with prg show ?thesis
        by (cases "dangling parse acc") auto
    next
      assume "a \<in> set (map snd (toolCallAccum st))"
      with assms have "dangling parse a \<or>
          (\<exists>input. LanguageModelToolCallPart (acc_id a) (acc_name a) input \<in>
             set (progress st))"
        unfolding parsedReported_iff by blast
      moreover have "set (progress st) \<subseteq> set (progress (onToolCall parse st tc))"
        using prg by (cases "dangling parse acc") auto
      ultimately show ?thesis
        by blast
    qed
  qed
qed

lemma parsedReported_onChoice:
  assumes "parsedReported parse st"
  shows "parsedReported parse (onChoice parse st c)"
proof -
  have r: "\<And>s d. parsedReported parse s \<Longrightarrow> parsedReported parse (onReasoning s d)"
    by (auto simp add: parsedReported_iff onReasoning_def report_def)
  have c: "\<And>s d. parsedReported parse s \<Longrightarrow> parsedReported parse (onContent s d)"
    by (auto simp add: parsedReported_iff onContent_def report_def split: option.splits)
  have t: "\<And>s d. parsedReported parse s \<Longrightarrow> parsedReported parse (onToolCalls parse s d)"
    by (auto simp add: onToolCalls_def split: option.splits
        intro: foldl_preserves parsedReported_onToolCall)
  show ?thesis
    using assms by (simp add: onChoice_def r c t split: option.splits)
qed

lemma parsedReported_streamLoop: "parsedReported parse (streamLoop parse chunks)"
  unfolding streamLoop_def
proof (rule foldl_preserves)
  show "parsedReported parse initialState"
    by (simp add: parsedReported_def initialState_def)
next
  fix s x
  assume "parsedReported parse s"
  then show "parsedReported parse (onChunk parse s x)"
    unfolding onChunk_def by (rule foldl_preserves [rotated]) (simp add: parsedReported_onChoice)
qed

text \<open>
  C6. When the loop has ended, the tool calls reported after it are exactly the
  fallbacks of the dangling accumulators, one for each in the order of the table, each
  with that accumulator's id and name and the empty object as input; what follows them
  holds no tool call. An accumulator is dangling when its argument string is not empty
  and does not parse; the loop parses the string after every fragment, so an accumulator
  whose string never parsed is dangling when the loop ends. And no accumulator is
  dropped: each one of the table has a tool call with its id and name among the parts
  reported when the method returns.
\<close>

theorem dangling_tool_calls_reported:
  "(\<exists>rest. streamResponse parse chunks =
       progress (streamLoop parse chunks) @
       map fallbackPart
         (filter (dangling parse) (map snd (toolCallAccum (streamLoop parse chunks)))) @
       rest \<and> \<not> list_ex isToolCall rest) \<and>
   (\<forall>acc \<in> set (map snd (toolCallAccum (streamLoop parse chunks))).
      \<exists>input. LanguageModelToolCallPart (acc_id acc) (acc_name acc) input \<in>
        set (streamResponse parse chunks))"
proof
  let ?L = "streamLoop parse chunks"
  let ?D = "danglingToolCalls parse ?L"
  obtain rest where rest: "progress (placeholder (closeThinking ?D)) = progress ?D @ rest"
    "\<not> list_ex isToolCall rest"
    using after_dangling [of ?D] by blast
  then have eq: "streamResponse parse chunks =
       progress ?L @ map fallbackPart (filter (dangling parse) (map snd (toolCallAccum ?L))) @ rest"
    by (simp add: streamResponse_def beforePlaceholder_def danglingToolCalls_progress)
  with rest(2) show "\<exists>rest. streamResponse parse chunks =
       progress ?L @ map fallbackPart (filter (dangling parse) (map snd (toolCallAccum ?L))) @ rest \<and>
       \<not> list_ex isToolCall rest"
    by blast
  show "\<forall>acc \<in> set (map snd (toolCallAccum ?L)).
      \<exists>input. LanguageModelToolCallPart (acc_id acc) (acc_name acc) input \<in>
        set (streamResponse parse chunks)"
  proof
    fix acc
    assume m: "acc \<in> set (map snd (toolCallAccum ?L))"
    show "\<exists>input. LanguageModelToolCallPart (acc_id acc) (acc_name acc) input \<in>
        set (streamResponse parse chunks)"
    proof (cases "dangling parse acc")
      case True
      with m have "fallbackPart acc \<in> set (streamResponse parse chunks)"
        by (simp add: eq)
      then show ?thesis
        by (auto simp add: fallbackPart_def)
    next
      case False
      with m parsedReported_streamLoop [of parse chunks]
      obtain input where
        "LanguageModelToolCallPart (acc_id acc) (acc_name acc) input \<in> set (progress ?L)"
        unfolding parsedReported_iff by blast
      then show ?thesis
        by (auto simp add: eq)
    qed
  qed
qed

theorem dangling_tool_calls_reported_witness:
  \<open>toolCallAccum (streamLoop JSON_parse
     [\<lparr> choices = Some [\<lparr> delta = Some \<lparr> reasoning = None, delta_content = None,
          tool_calls = Some [\<lparr> tc_index = Some 0, tc_id = Some ''a'',
            tc_function = Some \<lparr> fn_name = Some ''f'', fn_arguments = Some ''{"x":'' \<rparr> \<rparr>] \<rparr> \<rparr>] \<rparr>])
     = [(0, \<lparr> acc_id = ''a'', acc_name = ''f'', argsStr = ''{"x":'' \<rparr>)] \<and>
   dangling JSON_parse \<lparr> acc_id = ''a'', acc_name = ''f'', argsStr = ''{"x":'' \<rparr> \<and>
   streamResponse JSON_parse
     [\<lparr> choices = Some [\<lparr> delta = Some \<lparr> reasoning = None, delta_content = None,
          tool_calls = Some [\<lparr> tc_index = Some 0, tc_id = Some ''a'',
            tc_function = Some \<lparr> fn_name = Some ''f'', fn_arguments = Some ''{"x":'' \<rparr> \<rparr>] \<rparr> \<rparr>] \<rparr>]
     = [LanguageModelToolCallPart ''a'' ''f'' (JObject [])]\<close>
proof -
  let ?chunks = \<open>[\<lparr> choices = Some [\<lparr> delta = Some \<lparr> reasoning = None, delta_content = None,
          tool_calls = Some [\<lparr> tc_index = Some 0, tc_id = Some ''a'',
            tc_function = Some \<lparr> fn_name = Some ''f'', fn_arguments = Some ''{"x":'' \<rparr> \<rparr>] \<rparr> \<rparr>] \<rparr>]\<close>
  have tbl: \<open>toolCallAccum (streamLoop JSON_parse ?chunks) =
      [(0, \<lparr> acc_id = ''a'', acc_name = ''f'', argsStr = ''{"x":'' \<rparr>)]\<close>
    by (simp add: stream_defs parse_partial)
  have prg: "progress (streamLoop JSON_parse ?chunks) = []"
    by (simp add: stream_defs parse_partial)
  have flags: "\<not> thinkingActive (danglingToolCalls JSON_parse (streamLoop JSON_parse ?chunks))"
    "reportedToolCall (danglingToolCalls JSON_parse (streamLoop JSON_parse ?chunks))"
    by (simp_all add: stream_defs parse_partial)
  have d: \<open>dangling JSON_parse \<lparr> acc_id = ''a'', acc_name = ''f'', argsStr = ''{"x":'' \<rparr>\<close>
    by (simp add: dangling_def parse_partial)
  from dangling_tool_calls_reported [of JSON_parse ?chunks]
  obtain rest where "streamResponse JSON_parse ?chunks =
       progress (streamLoop JSON_parse ?chunks) @
       map fallbackPart
         (filter (dangling JSON_parse) (map snd (toolCallAccum (streamLoop JSON_parse ?chunks)))) @
       rest"
    by blast
  moreover have "length (streamResponse JSON_parse ?chunks) = 1"
    by (simp add: streamResponse_def beforePlaceholder_def danglingToolCalls_progress
        placeholder_def closeThinking_def report_def flags tbl prg d)
  ultimately have "streamResponse JSON_parse ?chunks =
      [LanguageModelToolCallPart ''a'' ''f'' (JObject [])]"
    by (simp add: tbl prg d fallbackPart_def)
  with tbl d show ?thesis
    by simp
qed

section \<open>Properties of the stream helpers of the adapter\<close>

text \<open>
  C10. For every chunk whose error is present, \<open>processStreamChunk\<close> returns the error's
  message, or \<open>OpenRouter stream error\<close> when the error has no message; it reports no
  part and leaves the table \<open>toolCallsByIndex\<close> as it was, whatever choices, content
  and tool-call fragments the chunk also carries.
\<close>

theorem processStreamChunk_error:
  "error chunk = Some err \<Longrightarrow>
     processStreamChunk chunk progress0 toolCallsByIndex =
       (Some (case message err of Some m \<Rightarrow> m | None \<Rightarrow> ''OpenRouter stream error''),
        progress0, toolCallsByIndex)"
  by (simp add: processStreamChunk_def nullish_def)

theorem processStreamChunk_error_witness:
  "error \<lparr> error = Some \<lparr> message = None \<rparr>,
           sdk_choices = Some [\<lparr> sdk_delta = Some \<lparr> sd_content = Some ''hello'',
             sd_toolCalls = Some [\<lparr> stc_index = 0, stc_id = Some ''a'', stc_function = None \<rparr>],
             sd_reasoning = None \<rparr> \<rparr>] \<rparr> = Some \<lparr> message = None \<rparr> \<and>
   processStreamChunk
     \<lparr> error = Some \<lparr> message = None \<rparr>,
       sdk_choices = Some [\<lparr> sdk_delta = Some \<lparr> sd_content = Some ''hello'',
         sd_toolCalls = Some [\<lparr> stc_index = 0, stc_id = Some ''a'', stc_function = None \<rparr>],
         sd_reasoning = None \<rparr> \<rparr>] \<rparr>
     [LanguageModelTextPart ''so far'']
     [(1, \<lparr> entry_id = Some ''b'', entry_name = None, args = ''{'' \<rparr>)] =
     (Some ''OpenRouter stream error'', [LanguageModelTextPart ''so far''],
      [(1, \<lparr> entry_id = Some ''b'', entry_name = None, args = ''{'' \<rparr>)])"
  using processStreamChunk_error [of
     "\<lparr> error = Some \<lparr> message = None \<rparr>,
       sdk_choices = Some [\<lparr> sdk_delta = Some \<lparr> sd_content = Some ''hello'',
         sd_toolCalls = Some [\<lparr> stc_index = 0, stc_id = Some ''a'', stc_function = None \<rparr>],
         sd_reasoning = None \<rparr> \<rparr>] \<rparr>"
     "\<lparr> message = None \<rparr>"
     "[LanguageModelTextPart ''so far'']"
     "[(1, \<lparr> entry_id = Some ''b'', entry_name = None, args = ''{'' \<rparr>)]"]
  by simp

section \<open>Properties of the response stream of the SDK provider\<close>

lemma sdkLoop_append:
  "sdkLoop parse (xs @ ys) out =
     (case sdkLoop parse xs out of
        (Some e, out') \<Rightarrow> (Some e, out')
      | (None, out') \<Rightarrow> sdkLoop parse ys out')"
  by (induction xs arbitrary: out) (auto split: option.splits prod.splits)

text \<open>
  What the loop does at a chunk that carries an error (lines 358-360), when the chunks
  before it have been processed without a failure: the request fails there, with the
  message handed to \<open>Error\<close>; the parts reported are those of the earlier chunks,
  whatever the chunk also carries and whatever chunks follow. And a request that has
  failed stays failed in the same way, whatever chunks follow.
\<close>

lemma sdk_error_chunk:
  "streamResponse_sdk parse before = (None, reported) \<Longrightarrow> error chunk = Some err \<Longrightarrow>
     streamResponse_sdk parse (before @ chunk # rest) =
       (Some (Error (case message err of Some m \<Rightarrow> m | None \<Rightarrow> [])), reported)"
  by (simp add: streamResponse_sdk_def sdkLoop_append nullish_def)

lemma sdk_failure_is_final:
  "streamResponse_sdk parse before = (Some e, reported) \<Longrightarrow>
     streamResponse_sdk parse (before @ rest) = (Some e, reported)"
  by (simp add: streamResponse_sdk_def sdkLoop_append)

text \<open>
  C3. A chunk that carries an error object ends the request with a failure whose message
  is the error's message, or a generic fallback when the error has none, and no later
  chunk is processed. The loop of the SDK provider misses the fallback: line 359 hands
  \<open>chunk.error.message\<close> to \<open>Error\<close> as it is, where the adapter (adapter.ts 146) and the
  unnamed provider (part_000 157) write \<open>?? "OpenRouter stream error"\<close>. In the stream
  below the second chunk carries an error without a message, beside a content fragment,
  and a third chunk follows. The request fails at the second chunk and reports only the
  text of the first, as the contract says, but the message of the failure is empty;
  \<open>processStreamChunk\<close> returns the fallback for the same chunk.
\<close>

theorem error_without_message_sdk:
  "streamResponse_sdk parse
     [\<lparr> error = None,
        sdk_choices = Some [\<lparr> sdk_delta = Some \<lparr> sd_content = Some ''hi'',
          sd_toolCalls = None, sd_reasoning = None \<rparr> \<rparr>] \<rparr>,
      \<lparr> error = Some \<lparr> message = None \<rparr>,
        sdk_choices = Some [\<lparr> sdk_delta = Some \<lparr> sd_content = Some ''partial'',
          sd_toolCalls = None, sd_reasoning = None \<rparr> \<rparr>] \<rparr>,
      \<lparr> error = None,
        sdk_choices = Some [\<lparr> sdk_delta = Some \<lparr> sd_content = Some ''late'',
          sd_toolCalls = None, sd_reasoning = None \<rparr> \<rparr>] \<rparr>] =
     (Some (Error []), [LanguageModelTextPart ''hi'']) \<and>
   processStreamChunk
     \<lparr> error = Some \<lparr> message = None \<rparr>,
       sdk_choices = Some [\<lparr> sdk_delta = Some \<lparr> sd_content = Some ''partial'',
         sd_toolCalls = None, sd_reasoning = None \<rparr> \<rparr>] \<rparr>
     [LanguageModelTextPart ''hi''] [] =
     (Some ''OpenRouter stream error'', [LanguageModelTextPart ''hi''], [])"
  by (simp add: streamResponse_sdk_def elementParts_def processStreamChunk_def truthy_def
      nullish_def)

subsection \<open>The SDK provider and the adapter on the streams of C4, C6 and C7\<close>

text \<open>
  The SDK provider keeps no accumulator and no thinking state. On the two chunks of C4
  its request fails at the first fragment; on the two chunks of C7 it reports the
  reasoning as a text part (line 380 marks this as to be done). The adapter's
  \<open>reportToolCalls\<close>, which no provider under \<open>src\<close> calls, reports an entry whose
  arguments do not parse with the input \<open>{raw: args}\<close>, and skips an entry that lacks
  an id or a name.
\<close>

lemma sdk_on_fragments:
  \<open>streamResponse_sdk JSON_parse
    [\<lparr> error = None,
       sdk_choices = Some [\<lparr> sdk_delta = Some \<lparr> sd_content = None,
         sd_toolCalls = Some [\<lparr> stc_index = 0, stc_id = Some ''a'',
           stc_function = Some \<lparr> fn_name = Some ''f'', fn_arguments = Some ''{"x":'' \<rparr> \<rparr>],
         sd_reasoning = None \<rparr> \<rparr>] \<rparr>,
     \<lparr> error = None,
       sdk_choices = Some [\<lparr> sdk_delta = Some \<lparr> sd_content = None,
         sd_toolCalls = Some [\<lparr> stc_index = 0, stc_id = None,
           stc_function = Some \<lparr> fn_name = None, fn_arguments = Some ''1}'' \<rparr> \<rparr>],
         sd_reasoning = None \<rparr> \<rparr>] \<rparr>] =
    (Some (SyntaxError ''{"x":''), [])\<close>
  by (simp add: streamResponse_sdk_def elementParts_def truthy_def nullish_def parse_partial)

lemma sdk_on_reasoning:
  "streamResponse_sdk parse
    [\<lparr> error = None,
       sdk_choices = Some [\<lparr> sdk_delta = Some \<lparr> sd_content = None, sd_toolCalls = None,
         sd_reasoning = Some ''think'' \<rparr> \<rparr>] \<rparr>,
     \<lparr> error = None,
       sdk_choices = Some [\<lparr> sdk_delta = Some \<lparr> sd_content = Some ''hello'', sd_toolCalls = None,
         sd_reasoning = None \<rparr> \<rparr>] \<rparr>] =
    (None, [LanguageModelTextPart ''reasoning: think'', LanguageModelTextPart ''hello''])"
  by (simp add: streamResponse_sdk_def elementParts_def truthy_def nullish_def)

lemma reportToolCalls_on_dangling:
  \<open>reportToolCalls JSON_parse
     [(0, \<lparr> entry_id = Some ''a'', entry_name = Some ''f'', args = ''{"x":'' \<rparr>),
      (1, \<lparr> entry_id = None, entry_name = Some ''g'', args = ''{"y":'' \<rparr>)] [] =
     [LanguageModelToolCallPart ''a'' ''f'' (JObject [(''raw'', JString ''{"x":'')])]\<close>
  by (simp add: reportToolCalls_def reportEntry_def or_else_def parse_partial)

end
